theory Spec2Isabelle
  imports Complex_Main "HOL-Library.Multiset"
begin

section \<open>JavaScript values\<close>

text \<open>
  The dashboard handles loosely typed JSON data. A number is a finite value, NaN or one
  of the infinities. A finite number is the rational that the double stands for: of a
  difference of two numbers only the sign is ever observed in the code modelled here,
  which is the sign of the exact difference, and a sum or a quotient is rounded by the
  host (see \<open>nearestDouble\<close> below). An object is the list of its properties in the order
  they were added; a read finds the first entry of a name.
\<close>

datatype jsnum = Fin rat | NaN | PosInf | NegInf

datatype jsval =
    JUndefined
  | JNull
  | JBool bool
  | JNum jsnum
  | JStr string
  | JArr "jsval list"
  | JObj "(string \<times> jsval) list"

text \<open>Errors a modelled function can throw.\<close>

datatype js_error =
    TypeError
  | Error jsval
  | FetchFailure string
  | AbortError

text \<open>\<open>Boolean(v)\<close>, the test of \<open>if (v)\<close>, \<open>v && w\<close>, \<open>v || w\<close> and \<open>!v\<close>.\<close>

fun truthy :: "jsval \<Rightarrow> bool" where
  "truthy JUndefined = False"
| "truthy JNull = False"
| "truthy (JBool b) = b"
| "truthy (JNum n) = (n \<noteq> Fin 0 \<and> n \<noteq> NaN)"
| "truthy (JStr s) = (s \<noteq> [])"
| "truthy (JArr xs) = True"
| "truthy (JObj kvs) = True"

definition js_or :: "jsval \<Rightarrow> jsval \<Rightarrow> jsval" where
  "js_or a b = (if truthy a then a else b)"

definition js_and :: "jsval \<Rightarrow> jsval \<Rightarrow> jsval" where
  "js_and a b = (if truthy a then b else a)"

text \<open>
  Reading a property: \<open>null.p\<close> and \<open>undefined.p\<close> throw a TypeError, an object gives the
  stored value or \<open>undefined\<close>, and the primitives and arrays of JSON data have none of
  the property names read by the code modelled here.
\<close>

fun js_get :: "jsval \<Rightarrow> string \<Rightarrow> js_error + jsval" where
  "js_get JUndefined p = Inl TypeError"
| "js_get JNull p = Inl TypeError"
| "js_get (JObj kvs) p = Inr (case map_of kvs p of None \<Rightarrow> JUndefined | Some v \<Rightarrow> v)"
| "js_get v p = Inr JUndefined"

text \<open>
  The host functions whose results depend on the engine and the locale are parameters of
  the model, collected in one record: \<open>String(n)\<close> and \<open>Number(s)\<close>,
  \<open>parseFloat(s)\<close>, \<open>n.toLocaleString('pt-BR', ...)\<close> with a fixed number of decimals
  and as currency (BRL), \<open>n.toFixed(4)\<close>, the text that \<open>formatDate\<close> makes with \<open>Date\<close>
  of an argument it can read, whether \<open>parseDate\<close> reads its argument as the current
  day, the double nearest to the exact result of an addition or a division (an infinity
  when it is out of range), and the text of the function that every object inherits
  under a given name.
\<close>

record platform =
  numberToString :: "jsnum \<Rightarrow> string"
  stringToNumber :: "string \<Rightarrow> jsnum"
  parseFloat :: "string \<Rightarrow> jsnum"
  toLocaleString :: "jsnum \<Rightarrow> nat \<Rightarrow> string"
  toLocaleCurrency :: "jsnum \<Rightarrow> string"
  toFixed4 :: "jsnum \<Rightarrow> string"
  dateText :: "jsval \<Rightarrow> string"
  arrivesToday :: "jsval \<Rightarrow> bool"
  nearestDouble :: "rat \<Rightarrow> jsnum"
  functionText :: "string \<Rightarrow> string"

text \<open>
  The names of the properties that a plain object inherits from \<open>Object.prototype\<close>. All
  of them are functions, except \<open>__proto__\<close>, which reads as \<open>Object.prototype\<close> itself.
\<close>

definition inherited_properties :: "string list" where
  "inherited_properties =
     [''constructor'', ''hasOwnProperty'', ''isPrototypeOf'', ''propertyIsEnumerable'',
      ''toLocaleString'', ''toString'', ''valueOf'', ''__proto__'', ''__defineGetter__'',
      ''__defineSetter__'', ''__lookupGetter__'', ''__lookupSetter__'']"

text \<open>
  Computations that can throw, in sequence: the first error is the result. \<open>js_map\<close> is
  \<open>xs.map(f)\<close> and \<open>js_some\<close> is \<open>xs.some(f)\<close> for such an \<open>f\<close>, and \<open>template\<close> is a
  template literal whose parts are evaluated from left to right.
\<close>

definition js_bind :: "js_error + 'a \<Rightarrow> ('a \<Rightarrow> js_error + 'b) \<Rightarrow> js_error + 'b" where
  "js_bind m f = (case m of Inl e \<Rightarrow> Inl e | Inr x \<Rightarrow> f x)"

fun js_map :: "('a \<Rightarrow> js_error + 'b) \<Rightarrow> 'a list \<Rightarrow> js_error + 'b list" where
  "js_map f [] = Inr []"
| "js_map f (x # xs) =
     (case f x of
        Inl e \<Rightarrow> Inl e
      | Inr y \<Rightarrow> (case js_map f xs of Inl e \<Rightarrow> Inl e | Inr ys \<Rightarrow> Inr (y # ys)))"

fun js_some :: "('a \<Rightarrow> js_error + bool) \<Rightarrow> 'a list \<Rightarrow> js_error + bool" where
  "js_some f [] = Inr False"
| "js_some f (x # xs) =
     (case f x of Inl e \<Rightarrow> Inl e | Inr b \<Rightarrow> if b then Inr True else js_some f xs)"

definition template :: "(js_error + string) list \<Rightarrow> js_error + string" where
  "template parts = js_bind (js_map (\<lambda>part. part) parts) (\<lambda>texts. Inr (concat texts))"

text \<open>\<open>xs.join(sep)\<close> for an array of strings.\<close>

fun js_join :: "string \<Rightarrow> string list \<Rightarrow> string" where
  "js_join sep [] = []"
| "js_join sep [x] = x"
| "js_join sep (x # y # ys) = x @ sep @ js_join sep (y # ys)"

text \<open>
  \<open>String(v)\<close>, \<open>v.toString()\<close> and \<open>v\<close> inside a template literal, on JSON data. An array
  joins the texts of its elements with commas, \<open>null\<close> and \<open>undefined\<close> counting as the
  empty text. An object is converted by the \<open>toString\<close> it inherits; when it has a property
  \<open>toString\<close> of its own, which in JSON data is no function, the conversion throws a
  TypeError.
\<close>

fun js_String :: "platform \<Rightarrow> jsval \<Rightarrow> js_error + string"
  and js_String_items :: "platform \<Rightarrow> jsval list \<Rightarrow> js_error + string list" where
  "js_String P JUndefined = Inr ''undefined''"
| "js_String P JNull = Inr ''null''"
| "js_String P (JBool b) = Inr (if b then ''true'' else ''false'')"
| "js_String P (JNum n) = Inr (numberToString P n)"
| "js_String P (JStr s) = Inr s"
| "js_String P (JArr xs) =
     (case js_String_items P xs of Inl e \<Rightarrow> Inl e | Inr texts \<Rightarrow> Inr (js_join '','' texts))"
| "js_String P (JObj kvs) =
     (if ''toString'' \<in> fst ` set kvs then Inl TypeError else Inr ''[object Object]'')"
| "js_String_items P [] = Inr []"
| "js_String_items P (x # xs) =
     (case (if x = JNull \<or> x = JUndefined then Inr [] else js_String P x) of
        Inl e \<Rightarrow> Inl e
      | Inr text \<Rightarrow>
          (case js_String_items P xs of Inl e \<Rightarrow> Inl e | Inr texts \<Rightarrow> Inr (text # texts)))"

text \<open>
  The values \<open>String\<close> converts without throwing: every value but an object with a
  property \<open>toString\<close> of its own, and an array that holds, at any depth, such an object.
\<close>

fun stringable :: "jsval \<Rightarrow> bool" where
  "stringable (JArr xs) = list_all stringable xs"
| "stringable (JObj kvs) = (''toString'' \<notin> fst ` set kvs)"
| "stringable v = True"

text \<open>A host to run the functions on.\<close>

definition sample_platform :: platform where
  "sample_platform =
     \<lparr>numberToString = (\<lambda>n. ''1''), stringToNumber = (\<lambda>s. NaN), parseFloat = (\<lambda>s. NaN),
      toLocaleString = (\<lambda>n d. ''1''), toLocaleCurrency = (\<lambda>n. ''R$ 1,00''),
      toFixed4 = (\<lambda>n. ''1.0000''), dateText = (\<lambda>v. ''01/01/2025''),
      arrivesToday = (\<lambda>v. False), nearestDouble = Fin,
      functionText = (\<lambda>name. ''function '' @ name @ ''() { [native code] }'')\<rparr>"

section \<open>escapeHtml\<close>

text \<open>\<open>s.replace(/c/g, r)\<close> for a single character \<open>c\<close>.\<close>

definition replaceAll :: "char \<Rightarrow> string \<Rightarrow> string \<Rightarrow> string" where
  "replaceAll c r s = concat (map (\<lambda>x. if x = c then r else [x]) s)"

definition escapeHtml :: "platform \<Rightarrow> jsval \<Rightarrow> js_error + string" where
  "escapeHtml P v =
     (if v = JNull \<or> v = JUndefined then Inr []
      else js_bind (js_String P v)
             (\<lambda>text. Inr (replaceAll (CHR 0x27) ''&#39;''
                            (replaceAll (CHR 0x22) ''&quot;''
                              (replaceAll (CHR ''>'') ''&gt;''
                                (replaceAll (CHR ''<'') ''&lt;''
                                  (replaceAll (CHR ''&'') ''&amp;'' text)))))))"

text \<open>
  The property of an escaped text: none of the four markup characters occurs, and at
  every position holding an ampersand one of the five entities starts.
\<close>

definition entities :: "string list" where
  "entities = [''&amp;'', ''&lt;'', ''&gt;'', ''&quot;'', ''&#39;'']"

fun starts_with :: "string \<Rightarrow> string \<Rightarrow> bool" where
  "starts_with [] s = True"
| "starts_with (p # ps) [] = False"
| "starts_with (p # ps) (c # cs) = (p = c \<and> starts_with ps cs)"

fun amp_only_in_entities :: "string \<Rightarrow> bool" where
  "amp_only_in_entities [] = True"
| "amp_only_in_entities (c # cs) =
     ((if c = CHR ''&'' then (\<exists>e \<in> set entities. starts_with e (c # cs)) else True)
      \<and> amp_only_in_entities cs)"

section \<open>The dashboard cache\<close>

text \<open>
  The four data groups a caller stores and reads. \<open>set\<close> and \<open>get\<close> index the cache
  object by the name of the group.
\<close>

datatype kind = Kpis | Charts | Operations | FilterOptions

text \<open>
  \<open>lastUpdate\<close> is \<open>null\<close> or a reading of \<open>Date.now()\<close>, in milliseconds.
  \<open>lastFilterString\<close> is the field that \<open>hasFiltersChanged\<close> adds to the object.
\<close>

record dashboardCache =
  kpis :: jsval
  charts :: jsval
  operations :: jsval
  filterOptions :: jsval
  lastUpdate :: "int option"
  lastFilterString :: jsval

definition dashboardCache_initial :: dashboardCache where
  "dashboardCache_initial =
     \<lparr>kpis = JNull, charts = JNull, operations = JNull, filterOptions = JNull,
      lastUpdate = None, lastFilterString = JUndefined\<rparr>"

text \<open>The field \<open>cacheTimeout\<close> of the object literal; no code assigns it.\<close>

definition cacheTimeout :: int where
  "cacheTimeout = 5 * 60 * 1000"

fun slot :: "kind \<Rightarrow> dashboardCache \<Rightarrow> jsval" where
  "slot Kpis c = kpis c"
| "slot Charts c = charts c"
| "slot Operations c = operations c"
| "slot FilterOptions c = filterOptions c"

fun slot_update :: "kind \<Rightarrow> jsval \<Rightarrow> dashboardCache \<Rightarrow> dashboardCache" where
  "slot_update Kpis v c = c\<lparr>kpis := v\<rparr>"
| "slot_update Charts v c = c\<lparr>charts := v\<rparr>"
| "slot_update Operations v c = c\<lparr>operations := v\<rparr>"
| "slot_update FilterOptions v c = c\<lparr>filterOptions := v\<rparr>"

text \<open>
  \<open>isValid\<close> at the clock reading \<open>now\<close>: the truth value of
  \<open>this.lastUpdate && (Date.now() - this.lastUpdate) < this.cacheTimeout\<close>. A
  \<open>lastUpdate\<close> of 0 is falsy, like \<open>null\<close>.
\<close>

definition isValid :: "int \<Rightarrow> dashboardCache \<Rightarrow> bool" where
  "isValid now c =
     (case lastUpdate c of
        None \<Rightarrow> False
      | Some t \<Rightarrow> t \<noteq> 0 \<and> now - t < cacheTimeout)"

definition invalidate :: "dashboardCache \<Rightarrow> dashboardCache" where
  "invalidate c = c\<lparr>kpis := JNull, charts := JNull, operations := JNull, lastUpdate := None\<rparr>"

definition cache_set :: "int \<Rightarrow> kind \<Rightarrow> jsval \<Rightarrow> dashboardCache \<Rightarrow> dashboardCache" where
  "cache_set now k v c = (slot_update k v c)\<lparr>lastUpdate := Some now\<rparr>"

definition cache_get :: "int \<Rightarrow> kind \<Rightarrow> dashboardCache \<Rightarrow> jsval" where
  "cache_get now k c = (if isValid now c \<and> truthy (slot k c) then slot k c else JNull)"

section \<open>The column registry and its configuration\<close>

text \<open>
  A column definition of \<open>AVAILABLE_COLUMNS\<close>. The fields \<open>label\<close>, \<open>showInConfig\<close>,
  \<open>sortable\<close>, \<open>sortField\<close> and \<open>category\<close> of the source are read by none of the
  functions modelled here and are left out.
\<close>

record ColumnDefinition =
  col_id :: string
  col_visible :: bool
  col_fixed :: bool
  col_order :: jsnum

definition AVAILABLE_COLUMNS :: "ColumnDefinition list" where
  "AVAILABLE_COLUMNS = [
    \<lparr>col_id = ''acoes'', col_visible = True, col_fixed = True, col_order = Fin 0\<rparr>,
    \<lparr>col_id = ''ref_importador'', col_visible = True, col_fixed = False, col_order = Fin 1\<rparr>,
    \<lparr>col_id = ''importador'', col_visible = True, col_fixed = False, col_order = Fin 2\<rparr>,
    \<lparr>col_id = ''data_abertura'', col_visible = True, col_fixed = False, col_order = Fin 3\<rparr>,
    \<lparr>col_id = ''exportador'', col_visible = True, col_fixed = False, col_order = Fin 4\<rparr>,
    \<lparr>col_id = ''modal'', col_visible = True, col_fixed = False, col_order = Fin 5\<rparr>,
    \<lparr>col_id = ''status'', col_visible = True, col_fixed = False, col_order = Fin 6\<rparr>,
    \<lparr>col_id = ''custos'', col_visible = True, col_fixed = False, col_order = Fin 7\<rparr>,
    \<lparr>col_id = ''despesas'', col_visible = False, col_fixed = False, col_order = Fin 21\<rparr>,
    \<lparr>col_id = ''data_chegada'', col_visible = True, col_fixed = False, col_order = Fin 8\<rparr>,
    \<lparr>col_id = ''presenca_carga'', col_visible = False, col_fixed = False, col_order = Fin (17 / 2)\<rparr>,
    \<lparr>col_id = ''data_embarque'', col_visible = False, col_fixed = False, col_order = Fin 9\<rparr>,
    \<lparr>col_id = ''transit_time'', col_visible = False, col_fixed = False, col_order = Fin 10\<rparr>,
    \<lparr>col_id = ''data_registro'', col_visible = False, col_fixed = False, col_order = Fin 11\<rparr>,
    \<lparr>col_id = ''mercadoria'', col_visible = True, col_fixed = False, col_order = Fin 12\<rparr>,
    \<lparr>col_id = ''container'', col_visible = False, col_fixed = False, col_order = Fin 13\<rparr>,
    \<lparr>col_id = ''peso_bruto'', col_visible = False, col_fixed = False, col_order = Fin 14\<rparr>,
    \<lparr>col_id = ''produtos'', col_visible = False, col_fixed = False, col_order = Fin 20\<rparr>,
    \<lparr>col_id = ''urf'', col_visible = True, col_fixed = False, col_order = Fin 15\<rparr>,
    \<lparr>col_id = ''numero_di'', col_visible = False, col_fixed = False, col_order = Fin 16\<rparr>,
    \<lparr>col_id = ''canal'', col_visible = False, col_fixed = False, col_order = Fin 17\<rparr>,
    \<lparr>col_id = ''pais'', col_visible = False, col_fixed = False, col_order = Fin 18\<rparr>,
    \<lparr>col_id = ''data_desova'', col_visible = False, col_fixed = False, col_order = Fin 22\<rparr>,
    \<lparr>col_id = ''limite_primeiro_periodo'', col_visible = False, col_fixed = False, col_order = Fin 23\<rparr>,
    \<lparr>col_id = ''limite_segundo_periodo'', col_visible = False, col_fixed = False, col_order = Fin 24\<rparr>,
    \<lparr>col_id = ''dias_extras_armazenagem'', col_visible = False, col_fixed = False, col_order = Fin 25\<rparr>,
    \<lparr>col_id = ''valor_despesas_extras'', col_visible = False, col_fixed = False, col_order = Fin 26\<rparr>,
    \<lparr>col_id = ''po_cliente'', col_visible = False, col_fixed = False, col_order = Fin 27\<rparr>,
    \<lparr>col_id = ''referencia_exportador'', col_visible = False, col_fixed = False, col_order = Fin 28\<rparr>,
    \<lparr>col_id = ''codigo_produto'', col_visible = False, col_fixed = False, col_order = Fin 29\<rparr>,
    \<lparr>col_id = ''filial_codigo'', col_visible = False, col_fixed = False, col_order = Fin 30\<rparr>,
    \<lparr>col_id = ''licenca_importacao'', col_visible = False, col_fixed = False, col_order = Fin 31\<rparr>,
    \<lparr>col_id = ''freetime'', col_visible = False, col_fixed = False, col_order = Fin 32\<rparr>,
    \<lparr>col_id = ''etb'', col_visible = False, col_fixed = False, col_order = Fin 33\<rparr>,
    \<lparr>col_id = ''navio'', col_visible = False, col_fixed = False, col_order = Fin 34\<rparr>,
    \<lparr>col_id = ''armador_agente_trade'', col_visible = False, col_fixed = False, col_order = Fin 35\<rparr>,
    \<lparr>col_id = ''moeda'', col_visible = False, col_fixed = False, col_order = Fin 36\<rparr>,
    \<lparr>col_id = ''total_pedido_moeda_origem'', col_visible = False, col_fixed = False, col_order = Fin 37\<rparr>,
    \<lparr>col_id = ''ptax'', col_visible = False, col_fixed = False, col_order = Fin 38\<rparr>,
    \<lparr>col_id = ''incoterm'', col_visible = False, col_fixed = False, col_order = Fin 39\<rparr>]"

text \<open>An entry \<open>{id, visible, order}\<close> as the two functions below build it.\<close>

record ColumnConfig =
  cfg_id :: string
  cfg_visible :: bool
  cfg_order :: jsnum

definition getDefaultColumnsConfig :: "ColumnConfig list" where
  "getDefaultColumnsConfig =
     map (\<lambda>col. \<lparr>cfg_id = col_id col,
                 cfg_visible = (if col_fixed col then True else col_visible col),
                 cfg_order = col_order col\<rparr>) AVAILABLE_COLUMNS"

text \<open>
  The difference \<open>a - b\<close> of two numbers, as far as its sign goes (the difference of two
  finite doubles can overflow to an infinity, of the same sign as the exact difference).
\<close>

fun js_sub :: "jsnum \<Rightarrow> jsnum \<Rightarrow> jsnum" where
  "js_sub (Fin a) (Fin b) = Fin (a - b)"
| "js_sub NaN b = NaN"
| "js_sub a NaN = NaN"
| "js_sub PosInf PosInf = NaN"
| "js_sub NegInf NegInf = NaN"
| "js_sub PosInf b = PosInf"
| "js_sub NegInf b = NegInf"
| "js_sub (Fin a) PosInf = NegInf"
| "js_sub (Fin a) NegInf = PosInf"

text \<open>
  \<open>Array.prototype.sort(compare)\<close>. The sort is stable, and a result of \<open>compare\<close>
  that is NaN counts as 0, so two elements are exchanged only when \<open>compare\<close> is
  positive. With a consistent comparator the sorted array is determined by these two
  facts; it is computed here by insertion from the right. (Where the comparator is not
  consistent, which takes an \<open>order\<close> that is NaN, the standard leaves the order to the
  engine; the model then still returns some permutation.)
\<close>

fun positive :: "jsnum \<Rightarrow> bool" where
  "positive (Fin r) = (0 < r)"
| "positive PosInf = True"
| "positive NaN = False"
| "positive NegInf = False"

fun insert_by :: "('a \<Rightarrow> 'a \<Rightarrow> jsnum) \<Rightarrow> 'a \<Rightarrow> 'a list \<Rightarrow> 'a list" where
  "insert_by compare x [] = [x]"
| "insert_by compare x (y # ys) =
     (if positive (compare x y) then y # insert_by compare x ys else x # y # ys)"

definition js_sort :: "('a \<Rightarrow> 'a \<Rightarrow> jsnum) \<Rightarrow> 'a list \<Rightarrow> 'a list" where
  "js_sort compare xs = foldr (insert_by compare) xs []"

text \<open>
  \<open>new Map(items.map(item => [item.id, item]))\<close>: the entries in the order of the items
  (\<open>item.id\<close> throws on \<open>null\<close> and \<open>undefined\<close>); a later entry replaces an earlier
  one of the same key, so \<open>get\<close> finds the last.
\<close>

fun map_entries :: "jsval list \<Rightarrow> js_error + (jsval \<times> jsval) list" where
  "map_entries [] = Inr []"
| "map_entries (item # items) =
     (case js_get item ''id'' of
        Inl e \<Rightarrow> Inl e
      | Inr k \<Rightarrow> (case map_entries items of
                   Inl e \<Rightarrow> Inl e
                 | Inr es \<Rightarrow> Inr ((k, item) # es)))"

definition Map_get :: "(jsval \<times> jsval) list \<Rightarrow> jsval \<Rightarrow> jsval" where
  "Map_get es k = (case map_of (rev es) k of None \<Rightarrow> JUndefined | Some v \<Rightarrow> v)"

text \<open>
  \<open>v.p\<close> where \<open>v\<close> is known not to be \<open>null\<close> or \<open>undefined\<close>, and \<open>v?.p\<close>.
\<close>

definition js_prop :: "jsval \<Rightarrow> string \<Rightarrow> jsval" where
  "js_prop v p = (case js_get v p of Inl e \<Rightarrow> JUndefined | Inr x \<Rightarrow> x)"

text \<open>
  \<open>(config || []).map(...)\<close>: a falsy \<open>config\<close> stands for the empty array, an array
  gives its items, and any other truthy JSON value has no function \<open>map\<close> (TypeError).
\<close>

definition config_items :: "jsval \<Rightarrow> js_error + jsval list" where
  "config_items config =
     (if truthy config then (case config of JArr items \<Rightarrow> Inr items | _ \<Rightarrow> Inl TypeError)
      else Inr [])"

definition normalized_entry :: "(jsval \<times> jsval) list \<Rightarrow> ColumnDefinition \<Rightarrow> ColumnConfig" where
  "normalized_entry configMap col =
     (let stored = Map_get configMap (JStr (col_id col)) in
      \<lparr>cfg_id = col_id col,
       cfg_visible = (if col_fixed col then True
                      else if truthy stored then truthy (js_prop stored ''visible'')
                      else col_visible col),
       cfg_order = (case js_prop stored ''order'' of JNum n \<Rightarrow> n | _ \<Rightarrow> col_order col)\<rparr>)"

text \<open>\<open>normalized.forEach((item, index) => { item.order = index; })\<close>\<close>

definition assign_index :: "ColumnConfig list \<Rightarrow> ColumnConfig list" where
  "assign_index xs = map (\<lambda>(item, index). item\<lparr>cfg_order := Fin (of_nat index)\<rparr>)
                      (zip xs [0..<length xs])"

definition normalizeColumnsConfig :: "jsval \<Rightarrow> js_error + ColumnConfig list" where
  "normalizeColumnsConfig config =
     (case config_items config of
        Inl e \<Rightarrow> Inl e
      | Inr items \<Rightarrow>
          (case map_entries items of
             Inl e \<Rightarrow> Inl e
           | Inr configMap \<Rightarrow>
               Inr (assign_index
                     (js_sort (\<lambda>a b. js_sub (cfg_order a) (cfg_order b))
                        (map (normalized_entry configMap) AVAILABLE_COLUMNS)))))"

text \<open>
  The array that \<open>normalizeColumnsConfig\<close> and \<open>getDefaultColumnsConfig\<close> return, as the
  JavaScript value it is (what a second call receives, and what \<open>JSON.stringify\<close> and
  \<open>JSON.parse\<close> carry through the storage).
\<close>

definition config_value :: "ColumnConfig list \<Rightarrow> jsval" where
  "config_value cs =
     JArr (map (\<lambda>c. JObj [(''id'', JStr (cfg_id c)), (''visible'', JBool (cfg_visible c)),
                           (''order'', JNum (cfg_order c))]) cs)"

text \<open>The configurations on which \<open>normalizeColumnsConfig\<close> does not throw.\<close>

definition accepted_config :: "jsval \<Rightarrow> bool" where
  "accepted_config config =
     (case config of
        JArr items \<Rightarrow> list_all (\<lambda>item. item \<noteq> JNull \<and> item \<noteq> JUndefined) items
      | _ \<Rightarrow> \<not> truthy config)"

text \<open>One entry of \<open>config_value\<close>.\<close>

definition entry_value :: "ColumnConfig \<Rightarrow> jsval" where
  "entry_value c = JObj [(''id'', JStr (cfg_id c)), (''visible'', JBool (cfg_visible c)),
                           (''order'', JNum (cfg_order c))]"

text \<open>The \<open>order\<close> of an entry when it is a finite number.\<close>

definition finite_order :: "ColumnConfig \<Rightarrow> rat" where
  "finite_order c = (case cfg_order c of Fin r \<Rightarrow> r | _ \<Rightarrow> 0)"

text \<open>
  Two stored configurations used as examples: one with an unknown id, a repeated id,
  orders that are not numbers and an item that is no object; and the one of the
  end-to-end scenario, \<open>[{id: 'urf', visible: false, order: 0}]\<close>.
\<close>

definition example_config :: jsval where
  "example_config = JArr [JObj [(''id'', JStr ''urf''), (''visible'', JBool False), (''order'', JStr ''x'')],
          JObj [(''id'', JStr ''zzz''), (''order'', JNum (Fin 3))],
          JObj [(''id'', JStr ''modal''), (''order'', JNum (Fin 3))],
          JObj [(''id'', JStr ''custos''), (''visible'', JNum (Fin 0)), (''order'', JNum (Fin 3))],
          JNum (Fin 5)]"

definition urf_config :: jsval where
  "urf_config = JArr [JObj [(''id'', JStr ''urf''), (''visible'', JBool False),
                            (''order'', JNum (Fin 0))]]"

section \<open>Request de-duplication and the retry loaders\<close>

text \<open>
  \<open>requestControllers\<close> maps a resource key to the AbortController of the last request
  issued for it. Controllers are numbered in the order of their creation;
  \<open>controllers\<close> holds, for each, whether \<open>abort()\<close> was called on it. \<open>requests\<close> is
  the log of the calls of \<open>fetch\<close>: the key and the controller whose signal the request
  carries, if any. The URL and the options of a request play no part in what follows
  and are left out.
\<close>

record network =
  controllers :: "bool list"
  requestControllers :: "string \<rightharpoonup> nat"
  requests :: "(string \<times> nat option) list"

definition network_initial :: network where
  "network_initial = \<lparr>controllers = [], requestControllers = Map.empty, requests = []\<rparr>"

definition is_aborted :: "network \<Rightarrow> nat \<Rightarrow> bool" where
  "is_aborted nt c = (c < length (controllers nt) \<and> controllers nt ! c)"

text \<open>The calls into the page (DOM, charts, table), in the order they are made.\<close>

datatype ui_call =
    UpdateDashboardKPIs jsval
  | CreateDashboardChartsWithValidation jsval
  | CreateEmptyCharts
  | UpdateRecentOperationsTable jsval
  | PopulateFilterOptions jsval
  | ToggleMaterialSections jsval

text \<open>
  What the loaders meet outside the program. \<open>host\<close>: the engine. \<open>abortControllerDefined\<close>:
  the browser has \<open>AbortController\<close>. \<open>queryString n\<close>: the error that
  \<open>buildFilterQueryString\<close>, which reads the filters from the document, throws in attempt
  \<open>n\<close>, if any. \<open>response n\<close>: what the two awaits of attempt \<open>n\<close> (\<open>fetch\<close> and
  \<open>response.json()\<close>) deliver when the request is not aborted, a rejection or the parsed
  body. \<open>concurrent n\<close>: the keys for which other callers go through \<open>fetchWithAbort\<close>
  while the request of attempt \<open>n\<close> is in flight. \<open>clock n\<close>: the reading of \<open>Date.now()\<close>
  once attempt \<open>n\<close> has settled. \<open>page i call\<close>: the error that a call into the page throws
  when it is made after \<open>i\<close> earlier ones, if any; what these functions do to the document
  is not modelled. \<open>toggleMaterialSectionsDefined\<close>: \<open>window.toggleMaterialSections\<close> is a
  function.
\<close>

record environment =
  host :: platform
  abortControllerDefined :: bool
  queryString :: "nat \<Rightarrow> js_error option"
  response :: "nat \<Rightarrow> js_error + jsval"
  concurrent :: "nat \<Rightarrow> string list"
  clock :: "nat \<Rightarrow> int"
  page :: "nat \<Rightarrow> ui_call \<Rightarrow> js_error option"
  toggleMaterialSectionsDefined :: bool

text \<open>
  \<open>fetchWithAbort(key, url, options)\<close>: abort the controller registered for the key, then
  register a new one and fetch with its signal. \<open>requestControllers\<close> is a plain object:
  under a key that names a property every object inherits, and for which no controller
  is registered, it holds that property, which has no \<open>abort\<close>; the call throws, and the
  \<open>catch\<close> branch fetches without a signal and registers nothing. Without
  \<open>AbortController\<close> the constructor throws, with the same effect.
\<close>

definition fetchWithAbort :: "environment \<Rightarrow> string \<Rightarrow> network \<Rightarrow> nat option \<times> network" where
  "fetchWithAbort env key nt =
     (if requestControllers nt key = None \<and> key \<in> set inherited_properties
      then (None, nt\<lparr>requests := requests nt @ [(key, None)]\<rparr>)
      else (let nt1 = (case requestControllers nt key of
                         Some c \<Rightarrow> nt\<lparr>controllers := (controllers nt)[c := True]\<rparr>
                       | None \<Rightarrow> nt)
            in if abortControllerDefined env
               then (let controller = length (controllers nt1)
                     in (Some controller,
                         nt1\<lparr>controllers := controllers nt1 @ [False],
                             requestControllers := (requestControllers nt1)(key \<mapsto> controller),
                             requests := requests nt1 @ [(key, Some controller)]\<rparr>))
               else (None, nt1\<lparr>requests := requests nt1 @ [(key, None)]\<rparr>)))"

text \<open>
  The promise of a request whose signal was aborted before the response was read
  rejects with an AbortError; otherwise it settles with what the network delivers.
\<close>

definition settle :: "network \<Rightarrow> nat option \<Rightarrow> js_error + jsval \<Rightarrow> js_error + jsval" where
  "settle nt signal r =
     (case signal of
        Some c \<Rightarrow> if is_aborted nt c then Inl AbortError else r
      | None \<Rightarrow> r)"

text \<open>
  The module state the loaders touch. \<open>ui\<close> is the log of the calls into the page,
  whether they returned or threw. \<open>waits\<close> are the delays of \<open>setTimeout\<close> awaited so
  far, in milliseconds.
\<close>

record dashboard =
  cache :: dashboardCache
  net :: network
  ui :: "ui_call list"
  waits :: "nat list"
  canViewMaterials :: jsval

definition dashboard_initial :: dashboard where
  "dashboard_initial =
     \<lparr>cache = dashboardCache_initial, net = network_initial, ui = [], waits = [],
      canViewMaterials = JUndefined\<rparr>"

text \<open>A call into the page: the error it throws, if any, and the state with the call logged.\<close>

definition call_page :: "environment \<Rightarrow> ui_call \<Rightarrow> dashboard \<Rightarrow> js_error option \<times> dashboard" where
  "call_page env call d = (page env (length (ui d)) call, d\<lparr>ui := ui d @ [call]\<rparr>)"

text \<open>
  \<open>const response = await fetchWithAbort(key, ...); const result = await response.json();\<close>
  of attempt \<open>n\<close>: the request is issued, the concurrent requests are issued while it is
  in flight, then it settles.
\<close>

definition request :: "environment \<Rightarrow> string \<Rightarrow> nat \<Rightarrow> dashboard \<Rightarrow> (js_error + jsval) \<times> dashboard" where
  "request env key n d =
     (case fetchWithAbort env key (net d) of
        (signal, nt1) \<Rightarrow>
          (let nt2 = fold (\<lambda>k nt. snd (fetchWithAbort env k nt)) (concurrent env n) nt1
           in (settle nt2 signal (response env n), d\<lparr>net := nt2\<rparr>)))"


definition msg_charts :: string where
  "msg_charts = ''Gr'' @ [CHR 0xE1] @ ''ficos n'' @ [CHR 0xE3] @ ''o encontrados''"

definition msg_operations :: string where
  "msg_operations = ''Opera'' @ [CHR 0xE7, CHR 0xF5] @ ''es n'' @ [CHR 0xE3] @ ''o encontradas''"


text \<open>
  \<open>new Error(message)\<close> converts the message to a text, which can throw in its turn.
\<close>

definition new_Error :: "platform \<Rightarrow> jsval \<Rightarrow> js_error" where
  "new_Error P message = (case js_String P message of Inl e \<Rightarrow> e | Inr s \<Rightarrow> Error (JStr s))"

text \<open>\<open>v.length\<close> for a truthy \<open>v\<close>.\<close>

fun js_length :: "jsval \<Rightarrow> jsval" where
  "js_length (JArr xs) = JNum (Fin (of_nat (length xs)))"
| "js_length (JStr s) = JNum (Fin (of_nat (length s)))"
| "js_length v = js_prop v ''length''"


definition charts_body ::
  "environment \<Rightarrow> nat \<Rightarrow> jsval \<Rightarrow> dashboard \<Rightarrow> js_error option \<times> dashboard" where
  "charts_body env attempt result d =
     (case js_get result ''success'' of
        Inl e \<Rightarrow> (Some e, d)
      | Inr success \<Rightarrow>
          if truthy success \<and> truthy (js_prop result ''charts'')
          then (case (if js_prop result ''can_view_materials'' \<noteq> JUndefined
                      then (let d1 = d\<lparr>canViewMaterials := js_prop result ''can_view_materials''\<rparr>
                            in if toggleMaterialSectionsDefined env
                               then call_page env
                                      (ToggleMaterialSections
                                         (js_prop result ''can_view_materials'')) d1
                               else (None, d1))
                      else (None, d)) of
                  (Some e, d2) \<Rightarrow> (Some e, d2)
                | (None, d2) \<Rightarrow>
                    call_page env (CreateDashboardChartsWithValidation (js_prop result ''charts''))
                      (d2\<lparr>cache := cache_set (clock env attempt) Charts
                                      (js_prop result ''charts'') (cache d2)\<rparr>))
          else (Some (new_Error (host env) (js_or (js_prop result ''error'') (JStr msg_charts))),
                d))"

definition operations_body ::
  "environment \<Rightarrow> nat \<Rightarrow> jsval \<Rightarrow> dashboard \<Rightarrow> js_error option \<times> dashboard" where
  "operations_body env attempt result d =
     (case js_get result ''success'' of
        Inl e \<Rightarrow> (Some e, d)
      | Inr success \<Rightarrow>
          if truthy success \<and> truthy (js_prop result ''operations'')
          then (case js_String (host env) (js_length (js_prop result ''operations'')) of
                  Inl e \<Rightarrow> (Some e, d)
                | Inr registros \<Rightarrow>
                    (let operationsToUse = js_or (js_prop result ''operations_all'')
                                                (js_prop result ''operations'')
                     in call_page env (UpdateRecentOperationsTable operationsToUse)
                          (d\<lparr>cache := cache_set (clock env attempt) Operations operationsToUse
                                         (cache d)\<rparr>)))
          else (Some (new_Error (host env)
                        (js_or (js_prop result ''error'') (JStr msg_operations))), d))"


text \<open>
  The \<open>try\<close> block of an attempt: the query string is built (not by the loader of the
  filter options), the request is awaited, and the rest of the block runs on the body.
\<close>

definition try_block ::
  "bool \<Rightarrow> string \<Rightarrow> (environment \<Rightarrow> nat \<Rightarrow> jsval \<Rightarrow> dashboard \<Rightarrow> js_error option \<times> dashboard)
   \<Rightarrow> environment \<Rightarrow> nat \<Rightarrow> dashboard \<Rightarrow> js_error option \<times> dashboard" where
  "try_block filtered key body env attempt d =
     (case (if filtered then queryString env attempt else None) of
        Some e \<Rightarrow> (Some e, d)
      | None \<Rightarrow>
          (case request env key attempt d of
             (Inl e, d1) \<Rightarrow> (Some e, d1)
           | (Inr result, d1) \<Rightarrow> body env attempt result d1))"




function loadDashboardChartsWithRetry_loop ::
  "environment \<Rightarrow> nat \<Rightarrow> nat \<Rightarrow> dashboard \<Rightarrow> js_error option \<times> dashboard" where
  "loadDashboardChartsWithRetry_loop env maxRetries attempt d =
     (if attempt \<le> maxRetries then
        (case try_block True ''charts'' charts_body env attempt d of
           (None, d2) \<Rightarrow> (None, d2)
         | (Some error, d1) \<Rightarrow>
             if attempt = maxRetries then
               (let cachedCharts = cache_get (clock env attempt) Charts (cache d1)
                in if truthy cachedCharts
                   then call_page env (CreateDashboardChartsWithValidation cachedCharts) d1
                   else (case call_page env CreateEmptyCharts d1 of
                           (Some e, d2) \<Rightarrow> (Some e, d2)
                         | (None, d2) \<Rightarrow> (Some error, d2)))
             else loadDashboardChartsWithRetry_loop env maxRetries (attempt + 1)
                    (d1\<lparr>waits := waits d1 @ [1000 * attempt]\<rparr>))
      else (None, d))"
  by pat_completeness auto
termination
  by (relation "measure (\<lambda>(env, maxRetries, attempt, d). Suc maxRetries - attempt)") auto

declare loadDashboardChartsWithRetry_loop.simps [simp del]

function loadRecentOperationsWithRetry_loop ::
  "environment \<Rightarrow> nat \<Rightarrow> nat \<Rightarrow> dashboard \<Rightarrow> js_error option \<times> dashboard" where
  "loadRecentOperationsWithRetry_loop env maxRetries attempt d =
     (if attempt \<le> maxRetries then
        (case try_block True ''operations'' operations_body env attempt d of
           (None, d2) \<Rightarrow> (None, d2)
         | (Some error, d1) \<Rightarrow>
             if attempt = maxRetries then
               (let cachedOperations = cache_get (clock env attempt) Operations (cache d1)
                in if truthy cachedOperations
                   then call_page env (UpdateRecentOperationsTable cachedOperations) d1
                   else (case call_page env (UpdateRecentOperationsTable (JArr [])) d1 of
                           (Some e, d2) \<Rightarrow> (Some e, d2)
                         | (None, d2) \<Rightarrow> (Some error, d2)))
             else loadRecentOperationsWithRetry_loop env maxRetries (attempt + 1)
                    (d1\<lparr>waits := waits d1 @ [1000 * attempt]\<rparr>))
      else (None, d))"
  by pat_completeness auto
termination
  by (relation "measure (\<lambda>(env, maxRetries, attempt, d). Suc maxRetries - attempt)") auto

declare loadRecentOperationsWithRetry_loop.simps [simp del]




definition loadDashboardChartsWithRetry ::
  "environment \<Rightarrow> nat \<Rightarrow> dashboard \<Rightarrow> js_error option \<times> dashboard" where
  "loadDashboardChartsWithRetry env maxRetries d = loadDashboardChartsWithRetry_loop env maxRetries 1 d"

definition loadRecentOperationsWithRetry ::
  "environment \<Rightarrow> nat \<Rightarrow> dashboard \<Rightarrow> js_error option \<times> dashboard" where
  "loadRecentOperationsWithRetry env maxRetries d = loadRecentOperationsWithRetry_loop env maxRetries 1 d"



















text \<open>
  Example surroundings for the loaders: a body that is accepted, a resource that
  answers on the second attempt while other resources are requested, one that never
  answers, one that answers while a concurrent request for \<open>charts\<close> supersedes the
  first attempt, one whose table throws on the operations it is given, and a state whose
  cache holds charts.
\<close>

definition body_ok :: "string \<Rightarrow> jsval \<Rightarrow> jsval" where
  "body_ok field v = JObj [(''success'', JBool True), (field, v)]"



definition env_superseded :: environment where
  "env_superseded = \<lparr>host = sample_platform, abortControllerDefined = True,
     queryString = (\<lambda>n. None),
     response = (\<lambda>n. Inr (body_ok ''charts'' (JObj [(''monthly'', JObj [])]))),
     concurrent = (\<lambda>n. if n = 1 then [''charts''] else []), clock = (\<lambda>n. 1000 * int n),
     page = (\<lambda>i call. None), toggleMaterialSectionsDefined = False\<rparr>"

definition env_table_throws :: environment where
  "env_table_throws = \<lparr>host = sample_platform, abortControllerDefined = True,
     queryString = (\<lambda>n. None),
     response = (\<lambda>n. Inr (body_ok ''operations'' (JObj []))),
     concurrent = (\<lambda>n. []), clock = (\<lambda>n. 1000 * int n),
     page = (\<lambda>i call. if call = UpdateRecentOperationsTable (JObj []) then Some TypeError
                        else None),
     toggleMaterialSectionsDefined = False\<rparr>"


section \<open>Rendering a row of the operations table\<close>

text \<open>
  Text is modelled as a sequence of 8-bit code units (Latin-1). The two characters of
  the source outside Latin-1, the ellipsis and the bullet, are written in UTF-8.
\<close>

definition is_space :: "char \<Rightarrow> bool" where
  "is_space c =
     (c \<in> set [CHR 0x09, CHR 0x0A, CHR 0x0B, CHR 0x0C, CHR 0x0D, CHR 0x20, CHR 0xA0])"

definition js_trim :: "string \<Rightarrow> string" where
  "js_trim s = rev (dropWhile is_space (rev (dropWhile is_space s)))"

definition upper_char :: "char \<Rightarrow> string" where
  "upper_char c =
     (let n = (of_char c :: nat)
      in if (97 \<le> n \<and> n \<le> 122) \<or> (224 \<le> n \<and> n \<le> 254 \<and> n \<noteq> 247)
         then [char_of (n - 32)]
         else if n = 223 then ''SS'' else [c])"

definition toUpperCase :: "string \<Rightarrow> string" where
  "toUpperCase s = concat (map upper_char s)"

fun js_includes :: "string \<Rightarrow> string \<Rightarrow> bool" where
  "js_includes [] sub = (sub = [])"
| "js_includes (c # cs) sub = (starts_with sub (c # cs) \<or> js_includes cs sub)"

text \<open>\<open>s.split(sep)\<close> for a separator that is not empty.\<close>

fun split_on :: "string \<Rightarrow> string \<Rightarrow> string \<Rightarrow> string list" where
  "split_on sep acc [] = [rev acc]"
| "split_on sep acc (c # cs) =
     (if sep \<noteq> [] \<and> starts_with sep (c # cs)
      then rev acc # split_on sep [] (drop (length sep - 1) cs)
      else split_on sep (c # acc) cs)"

definition js_split :: "string \<Rightarrow> string \<Rightarrow> string list" where
  "js_split s sep = split_on sep [] s"

text \<open>\<open>s.split(/[,;|\n]+/)\<close>: the pieces between the runs of separators.\<close>

definition is_separator :: "char \<Rightarrow> bool" where
  "is_separator c = (c \<in> set [CHR '','', CHR '';'', CHR ''|'', CHR 0x0A])"

function split_runs :: "string \<Rightarrow> string \<Rightarrow> string list" where
  "split_runs acc [] = [rev acc]"
| "split_runs acc (c # cs) =
     (if is_separator c then rev acc # split_runs [] (dropWhile is_separator cs)
      else split_runs (c # acc) cs)"
  by pat_completeness auto
termination
  by (relation "measure (\<lambda>(acc, s). length s)")
    (auto simp: length_dropWhile_le less_Suc_eq_le)


text \<open>
  Numbers: comparison, addition, division by a positive constant, integrality. The result
  of an addition and of a division is the double nearest to the exact one.
\<close>

definition js_gt :: "jsnum \<Rightarrow> jsnum \<Rightarrow> bool" where
  "js_gt a b = positive (js_sub a b)"

fun js_add :: "platform \<Rightarrow> jsnum \<Rightarrow> jsnum \<Rightarrow> jsnum" where
  "js_add P (Fin a) (Fin b) = nearestDouble P (a + b)"
| "js_add P NaN b = NaN"
| "js_add P a NaN = NaN"
| "js_add P PosInf NegInf = NaN"
| "js_add P NegInf PosInf = NaN"
| "js_add P PosInf b = PosInf"
| "js_add P NegInf b = NegInf"
| "js_add P (Fin a) PosInf = PosInf"
| "js_add P (Fin a) NegInf = NegInf"

fun js_div_by :: "platform \<Rightarrow> jsnum \<Rightarrow> rat \<Rightarrow> jsnum" where
  "js_div_by P (Fin a) c = nearestDouble P (a / c)"
| "js_div_by P n c = n"

text \<open>\<open>Math.abs(n % 1) > 0\<close>\<close>

fun has_fraction :: "jsnum \<Rightarrow> bool" where
  "has_fraction (Fin a) = (a \<noteq> of_int \<lfloor>a\<rfloor>)"
| "has_fraction n = False"

text \<open>
  \<open>Number(v)\<close>, also the conversion behind \<open>v > 0\<close> and \<open>isNaN(v)\<close>. An array and an object
  are converted to a text first, which can throw.
\<close>

fun js_Number :: "platform \<Rightarrow> jsval \<Rightarrow> js_error + jsnum" where
  "js_Number P JUndefined = Inr NaN"
| "js_Number P JNull = Inr (Fin 0)"
| "js_Number P (JBool b) = Inr (Fin (if b then 1 else 0))"
| "js_Number P (JNum n) = Inr n"
| "js_Number P (JStr s) = Inr (stringToNumber P s)"
| "js_Number P (JArr xs) = js_bind (js_String P (JArr xs)) (\<lambda>s. Inr (stringToNumber P s))"
| "js_Number P (JObj kvs) = js_bind (js_String P (JObj kvs)) (\<lambda>s. Inr NaN)"

definition nat_text :: "platform \<Rightarrow> nat \<Rightarrow> string" where
  "nat_text P n = numberToString P (Fin (of_nat n))"

definition int_text :: "platform \<Rightarrow> int \<Rightarrow> string" where
  "int_text P i = numberToString P (Fin (of_int i))"

fun is_array :: "jsval \<Rightarrow> bool" where
  "is_array (JArr xs) = True"
| "is_array v = False"

fun array_items :: "jsval \<Rightarrow> jsval list" where
  "array_items (JArr xs) = xs"
| "array_items v = []"

fun is_string :: "jsval \<Rightarrow> bool" where
  "is_string (JStr s) = True"
| "is_string v = False"

text \<open>\<open>typeof v === 'object'\<close> for a truthy \<open>v\<close>.\<close>

fun is_object :: "jsval \<Rightarrow> bool" where
  "is_object (JObj kvs) = True"
| "is_object (JArr xs) = True"
| "is_object v = False"

text \<open>
  The properties of an object in the order \<open>Object.keys\<close>, \<open>Object.values\<close> and
  \<open>Object.entries\<close> list them: first the names that are array indices (a decimal numeral
  without a leading zero, at most \<open>2^32 - 2\<close>) by ascending value, then the other names in
  the order they were added. A name counts once, with the value a read finds.
\<close>

definition index_value :: "string \<Rightarrow> int" where
  "index_value s = foldl (\<lambda>n c. 10 * n + (of_char c - 48)) 0 s"

definition is_index :: "string \<Rightarrow> bool" where
  "is_index s =
     (s \<noteq> [] \<and> list_all (\<lambda>c. 48 \<le> (of_char c :: nat) \<and> (of_char c :: nat) \<le> 57) s
      \<and> (hd s \<noteq> CHR ''0'' \<or> length s = 1) \<and> index_value s \<le> 4294967294)"

definition own_keys :: "(string \<times> jsval) list \<Rightarrow> string list" where
  "own_keys kvs =
     (let names = rev (remdups (rev (map fst kvs)))
      in sort_key index_value (filter is_index names) @ filter (\<lambda>name. \<not> is_index name) names)"

fun object_entries :: "platform \<Rightarrow> jsval \<Rightarrow> (string \<times> jsval) list" where
  "object_entries P (JObj kvs) = map (\<lambda>name. (name, js_prop (JObj kvs) name)) (own_keys kvs)"
| "object_entries P (JArr xs) = zip (map (nat_text P) [0..<length xs]) xs"
| "object_entries P (JStr s) = zip (map (nat_text P) [0..<length s]) (map (\<lambda>c. JStr [c]) s)"
| "object_entries P v = []"

definition object_values :: "platform \<Rightarrow> jsval \<Rightarrow> jsval list" where
  "object_values P v = map snd (object_entries P v)"

text \<open>\<open>o[key] = v\<close> on an object; on a primitive the assignment is without effect.\<close>

fun js_set :: "jsval \<Rightarrow> string \<Rightarrow> jsval \<Rightarrow> jsval" where
  "js_set (JObj kvs) key v =
     JObj (if key \<in> fst ` set kvs then map (\<lambda>(k, x). if k = key then (k, v) else (k, x)) kvs
           else kvs @ [(key, v)])"
| "js_set obj key v = obj"

text \<open>The formatting helpers.\<close>

definition formatNumber :: "platform \<Rightarrow> jsval \<Rightarrow> nat \<Rightarrow> js_error + string" where
  "formatNumber P v decimals =
     (if \<not> truthy v then Inr ''0''
      else js_bind (js_Number P v) (\<lambda>n. Inr (toLocaleString P n decimals)))"

definition formatCurrency :: "platform \<Rightarrow> jsval \<Rightarrow> js_error + string" where
  "formatCurrency P v =
     (if \<not> truthy v then Inr ''R$ 0,00''
      else js_bind (js_Number P v) (\<lambda>n. Inr (toLocaleCurrency P n)))"

text \<open>
  \<open>formatDate\<close> returns the placeholder for a falsy argument. Otherwise it returns the
  text that \<open>Date\<close> makes of the argument, or, when a step of its \<open>try\<close> statement throws,
  the argument itself: a text has \<open>includes\<close> and \<open>split\<close>; an array has \<open>includes\<close> but
  not \<open>split\<close>, and \<open>new Date\<close> converts it to a text first; any other value has
  neither. Every caller takes the text of what is returned, which is the result here.
\<close>

definition formatDate :: "platform \<Rightarrow> jsval \<Rightarrow> js_error + string" where
  "formatDate P dateString =
     (if \<not> truthy dateString then Inr ''-''
      else (case dateString of
              JStr s \<Rightarrow> Inr (dateText P dateString)
            | JArr xs \<Rightarrow>
                if JStr ''/'' \<in> set xs then js_String P dateString
                else js_bind (js_String P dateString) (\<lambda>s. Inr (dateText P dateString))
            | _ \<Rightarrow> js_String P dateString))"

text \<open>A line break of a template literal followed by its indentation.\<close>

definition nl :: "nat \<Rightarrow> string" where
  "nl n = CHR 0x0A # replicate n (CHR '' '')"

text \<open>\<open>formatDataChegada\<close>; \<open>parseDate\<close> converts a truthy argument with \<open>String\<close>.\<close>

definition formatDataChegada :: "platform \<Rightarrow> jsval \<Rightarrow> js_error + string" where
  "formatDataChegada P dateString =
     (if \<not> truthy dateString then Inr ''-''
      else js_bind (js_String P dateString)
             (\<lambda>s. if arrivesToday P dateString
                  then template
                         [Inr (''<span class=\"chegada-proxima\">'' @ nl 12
                               @ ''<i class=\"mdi mdi-clock\"></i>'' @ nl 12),
                          formatDate P dateString,
                          Inr (nl 8 @ ''</span>'')]
                  else formatDate P dateString))"

definition normalizePesoBruto :: "platform \<Rightarrow> jsval \<Rightarrow> js_error + jsnum" where
  "normalizePesoBruto P peso =
     (if \<not> truthy peso then Inr (Fin 0)
      else js_bind (js_Number P peso)
             (\<lambda>pesoNum. Inr (if pesoNum = NaN then Fin 0
                              else if js_gt pesoNum (Fin 100000) then js_div_by P pesoNum 100
                              else pesoNum)))"

definition getStatusBadge :: "platform \<Rightarrow> jsval \<Rightarrow> js_error + string" where
  "getStatusBadge P status =
     (if \<not> truthy status then Inr ''<span class=\"badge badge-secondary\">-</span>''
      else if (case status of JStr s \<Rightarrow> toUpperCase (js_trim s) = ''N/A'' | _ \<Rightarrow> False)
      then Inr ''<span class=\"badge badge-secondary\">N/A</span>''
      else template
             [Inr ''<span class=\"badge badge-light-monochrome\">'',
              (case status of
                 JStr s \<Rightarrow> Inr (if js_includes s '' - '' then js_trim (js_split s '' - '' ! 1)
                                 else s)
               | _ \<Rightarrow> js_String P status),
              Inr ''</span>''])"

definition getModalBadge :: "platform \<Rightarrow> jsval \<Rightarrow> js_error + string" where
  "getModalBadge P modal =
     (if \<not> truthy modal then Inr ''<span class=\"badge badge-secondary\">-</span>''
      else js_bind (js_String P modal)
        (\<lambda>s. let modalUpper = js_trim (toUpperCase s);
                 icon =
                  (if js_includes modalUpper (''MAR'' @ [CHR 0xCD] @ ''TIMA'')
                       \<or> js_includes modalUpper ''MARITIMA''
                   then ''mdi-ferry''
                   else if js_includes modalUpper (''A'' @ [CHR 0xC9] @ ''REA'')
                           \<or> js_includes modalUpper ''AEREA''
                   then ''mdi-airplane''
                   else if js_includes modalUpper (''RODOVI'' @ [CHR 0xC1] @ ''RIA'')
                           \<or> js_includes modalUpper ''RODOVIARIA''
                   then ''mdi-truck''
                   else if js_includes modalUpper (''FERROVI'' @ [CHR 0xC1] @ ''RIA'')
                           \<or> js_includes modalUpper ''FERROVIARIA''
                   then ''mdi-train''
                   else if js_includes modalUpper ''POSTAL'' \<or> js_includes modalUpper ''CORREIO''
                   then ''mdi-email''
                   else if js_includes modalUpper ''COURIER'' \<or> js_includes modalUpper ''EXPRESS''
                   then ''mdi-package-variant''
                   else ''mdi-help'')
             in Inr (''<span class=\"modal-icon-badge\" title=\"'' @ modalUpper
                     @ ''\"><i class=\"mdi '' @ icon @ ''\"></i></span>'')))"

definition getCanalIndicator :: "platform \<Rightarrow> jsval \<Rightarrow> js_error + string" where
  "getCanalIndicator P canal =
     js_bind (if truthy canal then js_bind (js_String P canal) (\<lambda>s. Inr (js_trim s)) else Inr [])
       (\<lambda>rawLabel.
          let upperLabel = (if rawLabel \<noteq> [] then toUpperCase rawLabel else []);
              dotClass = (if js_includes upperLabel ''VERDE'' then ''verde''
                          else if js_includes upperLabel ''AMARELO'' then ''amarelo''
                          else if js_includes upperLabel ''VERMELHO'' then ''vermelho''
                          else ''neutro'');
              displayLabel = (if upperLabel \<noteq> [] \<and> upperLabel \<noteq> ''N/A'' then upperLabel
                              else ''-'')
          in template
               [Inr (''<span class=\"canal-indicator\"><span class=\"canal-dot '' @ dotClass
                     @ ''\"></span><span class=\"canal-text\">''),
                escapeHtml P (JStr displayLabel),
                Inr ''</span></span>''])"

text \<open>
  \<open>summarizeProdutos\<close>: the label of one product, \<open>None\<close> for \<open>null\<close>. \<open>x.toString()\<close> on a
  truthy value or the empty text is the conversion to a text.
\<close>

definition produto_label :: "platform \<Rightarrow> jsval \<Rightarrow> js_error + string option" where
  "produto_label P produto =
     (if \<not> truthy produto \<or> \<not> is_object produto then Inr None
      else
        js_bind (js_String P
                   (js_or (js_prop produto ''descricao'')
                     (js_or (js_prop produto ''descricao_produto'')
                       (js_or (js_prop produto ''descricao_adicao'') (JStr [])))))
          (\<lambda>descricaoText.
        js_bind (js_String P
                   (js_or (js_prop produto ''ncm'') (js_or (js_prop produto ''ncm_sh'') (JStr []))))
          (\<lambda>ncmText.
        js_bind (js_String P
                   (js_or (js_prop produto ''unidade_medida'')
                     (js_or (js_prop produto ''unidade'') (JStr []))))
          (\<lambda>unidadeText.
        js_bind (let quantidadeRaw = js_or (js_prop produto ''quantidade'')
                                       (js_or (js_prop produto ''qtd'')
                                         (js_prop produto ''quantidade_declarada''))
                 in if truthy quantidadeRaw
                    then js_bind (js_Number P quantidadeRaw) (\<lambda>n. Inr (Some n))
                    else Inr None)
          (\<lambda>quantidade.
        js_bind (case quantidade of
                   None \<Rightarrow> Inr None
                 | Some n \<Rightarrow>
                     if n = NaN then Inr None
                     else js_bind (formatNumber P (JNum n) (if has_fraction n then 2 else 0))
                            (\<lambda>quantidadeFormatada. Inr (Some quantidadeFormatada)))
          (\<lambda>formatted.
             let descricao = js_trim descricaoText;
                 ncm = js_trim ncmText;
                 unidade = js_trim unidadeText;
                 partes = (if descricao \<noteq> [] then [descricao]
                           else if ncm \<noteq> [] then [''NCM '' @ ncm] else []);
                 detalhes =
                   (if ncm \<noteq> [] \<and> descricao \<noteq> [] \<and> \<not> js_includes descricao ncm
                    then [''NCM '' @ ncm] else [])
                   @ (case formatted of
                        Some quantidadeFormatada \<Rightarrow>
                          [js_trim (quantidadeFormatada
                                    @ (if unidade \<noteq> [] then '' '' @ unidade else []))]
                      | None \<Rightarrow> if unidade \<noteq> [] then [unidade] else []);
                 label = js_trim (js_join '' ''
                           (partes @ (if detalhes \<noteq> []
                                      then [''('' @ js_join ('' '' @ [CHR 0xE2, CHR 0x80, CHR 0xA2] @ '' '') detalhes
                                            @ '')'']
                                      else [])))
             in Inr (if label = [] then None else Some label)))))))"

definition no_produtos :: jsval where
  "no_produtos = JObj [(''text'', JStr ''-''), (''entries'', JArr [])]"

definition summarizeProdutos :: "platform \<Rightarrow> jsval \<Rightarrow> nat \<Rightarrow> js_error + jsval" where
  "summarizeProdutos P operation maxItems =
     (if \<not> truthy operation \<or> \<not> is_array (js_prop operation ''produtos_processo'')
         \<or> array_items (js_prop operation ''produtos_processo'') = []
      then Inr no_produtos
      else js_bind (js_map (produto_label P) (array_items (js_prop operation ''produtos_processo'')))
             (\<lambda>labels.
                let entries = concat (map (\<lambda>label. case label of None \<Rightarrow> [] | Some s \<Rightarrow> [s])
                                        labels)
                in if entries = [] then Inr no_produtos
                   else (let displayEntries = take maxItems entries;
                             suffix = (if maxItems < length entries
                                       then '' +'' @ nat_text P (length entries - maxItems)
                                       else [])
                         in Inr (JObj [(''text'', JStr (js_trim (js_join '', '' displayEntries
                                                                 @ suffix))),
                                       (''tooltip'', JStr (js_join [CHR 0x0A] entries)),
                                       (''entries'', JArr (map JStr entries))]))))"

text \<open>
  \<open>processExpensesByCategory\<close>. \<open>categorias[categoria] += valor\<close> on the object that
  collects the sums: a category adds to the number it has; a category named like a
  function that every object inherits finds that function, whose text the value is added
  to, and from then on has a text; an assignment to \<open>__proto__\<close> of a text is without
  effect.
\<close>

definition empty_expenses :: jsval where
  "empty_expenses =
     JObj [(''categorias'', JObj []), (''total'', JNum (Fin 0)), (''categoriasAjustadas'', JObj [])]"

definition accumulate :: "platform \<Rightarrow> jsval \<Rightarrow> string \<Rightarrow> jsnum \<Rightarrow> jsval" where
  "accumulate P categorias categoria valor =
     (case (case categorias of JObj kvs \<Rightarrow> map_of kvs categoria | _ \<Rightarrow> None) of
        Some (JStr s) \<Rightarrow>
          js_set categorias categoria
            (if s = [] then JNum (js_add P (Fin 0) valor) else JStr (s @ numberToString P valor))
      | Some current \<Rightarrow>
          js_set categorias categoria
            (JNum (js_add P (case current of JNum n \<Rightarrow> if truthy current then n else Fin 0
                                            | _ \<Rightarrow> Fin 0) valor))
      | None \<Rightarrow>
          if categoria = ''__proto__'' then categorias
          else if categoria \<in> set inherited_properties
          then js_set categorias categoria
                 (JStr (functionText P categoria @ numberToString P valor))
          else js_set categorias categoria (JNum (js_add P (Fin 0) valor)))"

text \<open>
  The loop over the expenses: a TypeError on an expense that is \<open>null\<close> or \<open>undefined\<close>,
  and on a value or a category that \<open>String\<close> does not convert.
\<close>

fun expenses_loop ::
  "platform \<Rightarrow> jsval list \<Rightarrow> jsval \<Rightarrow> jsnum \<Rightarrow> js_error + (jsval \<times> jsnum)" where
  "expenses_loop P [] categorias running = Inr (categorias, running)"
| "expenses_loop P (despesa # rest) categorias running =
     (case js_get despesa ''categoria_custo'' of
        Inl e \<Rightarrow> Inl e
      | Inr c \<Rightarrow>
          (case js_String P (js_prop despesa ''valor_custo'') of
             Inl e \<Rightarrow> Inl e
           | Inr valorStr \<Rightarrow>
               (case js_String P (js_or c (JStr ''Outros Custos'')) of
                  Inl e \<Rightarrow> Inl e
                | Inr categoria \<Rightarrow>
                    (let parsed = parseFloat P valorStr;
                         valor = (if truthy (JNum parsed) then parsed else Fin 0)
                     in expenses_loop P rest (accumulate P categorias categoria valor)
                          (js_add P running valor)))))"

text \<open>The function, whose \<open>catch\<close> returns the empty result.\<close>

definition processExpensesByCategory :: "platform \<Rightarrow> jsval \<Rightarrow> jsval" where
  "processExpensesByCategory P despesasProcesso =
     (if \<not> truthy despesasProcesso \<or> \<not> is_array despesasProcesso then empty_expenses
      else (case expenses_loop P (array_items despesasProcesso) (JObj []) (Fin 0) of
              Inl e \<Rightarrow> empty_expenses
            | Inr (categorias, running) \<Rightarrow>
                JObj [(''categorias'', categorias), (''total'', JNum running),
                      (''categoriasAjustadas'', categorias)]))"

text \<open>
  \<open>summarizeDespesas\<close>. The filter converts every truthy value with \<open>Number\<close>, in the
  order of the entries; the comparisons of the sort meet the same numbers again.
\<close>

definition summarizeDespesas :: "platform \<Rightarrow> jsval \<Rightarrow> jsval \<Rightarrow> nat \<Rightarrow> js_error + jsval" where
  "summarizeDespesas P expenseData operation maxItems =
     (let data = (if (\<not> truthy expenseData \<or> \<not> truthy (js_prop expenseData ''categorias''))
                     \<and> truthy operation
                     \<and> is_array (js_prop operation ''despesas_processo'')
                     \<and> array_items (js_prop operation ''despesas_processo'') \<noteq> []
                  then processExpensesByCategory P (js_prop operation ''despesas_processo'')
                  else expenseData);
          categorias = (if truthy data \<and> truthy (js_prop data ''categorias'')
                        then js_prop data ''categorias'' else JNull)
      in if \<not> truthy categorias \<or> object_entries P categorias = []
         then Inr (JObj [(''text'', JStr ''-'')])
         else
           js_bind (js_map (\<lambda>(categoria, valor).
                              if truthy valor
                              then js_bind (js_Number P valor)
                                     (\<lambda>n. Inr (categoria, valor, Some n))
                              else Inr (categoria, valor, None))
                      (object_entries P categorias))
             (\<lambda>numbered.
           js_bind (js_map (\<lambda>(categoria, valor, n).
                              template [Inr (categoria @ '': ''), formatCurrency P valor])
                      (js_sort (\<lambda>(ka, valorA, a) (kb, valorB, b). js_sub (the b) (the a))
                         (filter (\<lambda>(categoria, valor, n). n \<noteq> None \<and> n \<noteq> Some (Fin 0))
                            numbered)))
             (\<lambda>entries.
                if entries = [] then Inr (JObj [(''text'', JStr ''-'')])
                else (let displayEntries = take maxItems entries;
                          suffix = (if maxItems < length entries
                                    then '' +'' @ nat_text P (length entries - maxItems)
                                    else [])
                      in Inr (JObj [(''text'', JStr (js_trim (js_join '', '' displayEntries
                                                              @ suffix))),
                                    (''tooltip'', JStr (js_join [CHR 0x0A] entries))])))))"

definition hasArmazenagemDetails :: "platform \<Rightarrow> jsval \<Rightarrow> js_error + bool" where
  "hasArmazenagemDetails P operation =
     (if \<not> truthy operation then Inr False
      else if truthy (js_prop operation ''has_armazenagem_data'') then Inr True
      else (let data = js_prop operation ''armazenagem_data''
            in if truthy data \<and> is_object data
               then js_some (\<lambda>value.
                       if value = JNull \<or> value = JUndefined then Inr False
                       else (case value of
                               JNum n \<Rightarrow> Inr (n \<noteq> NaN \<and> n \<noteq> Fin 0)
                             | _ \<Rightarrow> js_bind (js_String P value)
                                     (\<lambda>s. let str = js_trim s
                                          in Inr (str \<noteq> [] \<and> str \<noteq> ''0'' \<and> str \<noteq> ''-''))))
                     (object_values P data)
               else Inr False))"

text \<open>
  \<open>getArmazenagemDisplay\<close>; the result is the text of what it returns, as \<open>escapeHtml\<close>
  takes it.
\<close>

definition getArmazenagemDisplay :: "platform \<Rightarrow> jsval \<Rightarrow> string \<Rightarrow> js_error + string" where
  "getArmazenagemDisplay P operation field =
     (if \<not> truthy operation then Inr ''-''
      else (let data = js_prop operation ''armazenagem_data''
            in if \<not> truthy data \<or> \<not> is_object data then Inr ''-''
               else (let value = js_prop data field
                     in if value = JNull \<or> value = JUndefined \<or> value = JStr []
                           \<or> value = JStr ''-''
                        then Inr ''-''
                        else if field = ''valor_despesas_extras''
                        then js_bind (js_Number P value)
                               (\<lambda>numeric. if numeric \<noteq> NaN \<and> numeric \<noteq> Fin 0
                                          then formatCurrency P (JNum numeric) else Inr ''-'')
                        else if field = ''dias_extras_armazenagem''
                        then js_bind (js_Number P value)
                               (\<lambda>numeric. if numeric \<noteq> NaN \<and> numeric \<noteq> Fin 0
                                          then Inr (numberToString P numeric @ '' ''
                                                    @ (if numeric = Fin 1 then ''dia''
                                                       else ''dias''))
                                          else Inr ''-'')
                        else formatDate P value)))"

definition extractContainerValues :: "platform \<Rightarrow> jsval \<Rightarrow> js_error + string list" where
  "extractContainerValues P operation =
     (if \<not> truthy operation then Inr []
      else (let rawValue = js_or (js_prop operation ''container'')
                             (js_or (js_prop operation ''numero_container'')
                               (js_or (js_prop operation ''conteiner'')
                                 (js_prop operation ''conteineres'')))
            in case rawValue of
                 JArr items \<Rightarrow>
                   js_bind (js_map (\<lambda>item. if item = JNull \<or> item = JUndefined then Inr []
                                           else js_bind (js_String P item)
                                                  (\<lambda>s. Inr (js_trim s))) items)
                     (\<lambda>texts. Inr (filter (\<lambda>s. s \<noteq> []) texts))
               | JStr s \<Rightarrow>
                   Inr (if s = [] then []
                        else filter (\<lambda>s. s \<noteq> []) (map js_trim (split_runs [] s)))
               | _ \<Rightarrow> Inr []))"

text \<open>\<open>createChipListMarkup(values, {maxVisible})\<close>; \<open>None\<close> stands for \<open>null\<close>.\<close>

definition createChipListMarkup ::
  "platform \<Rightarrow> jsval \<Rightarrow> nat \<Rightarrow> js_error + string option" where
  "createChipListMarkup P values maxVisible =
     (if \<not> is_array values \<or> array_items values = [] then Inr None
      else
        js_bind (js_map (\<lambda>value. if value = JNull \<or> value = JUndefined then Inr []
                                 else js_bind (js_String P value) (\<lambda>s. Inr (js_trim s)))
                   (array_items values))
          (\<lambda>texts.
             let normalized = filter (\<lambda>s. s \<noteq> []) texts
             in if normalized = [] then Inr None
                else (let visibleValues = take maxVisible normalized;
                          overflow = length normalized - length visibleValues
                      in js_bind (js_map (\<lambda>value.
                                    template
                                      [Inr ''<span class=\"data-chip\" title=\"'',
                                       escapeHtml P (JStr value),
                                       Inr ''\">'',
                                       escapeHtml P
                                         (JStr (if 18 < length value then take 18 value @ [CHR 0xE2, CHR 0x80, CHR 0xA6]
                                                else value)),
                                       Inr ''</span>'']) visibleValues)
                           (\<lambda>chips.
                              Inr (Some (''<div class=\"data-chip-list\">''
                                @ concat (chips
                                    @ (if 0 < overflow
                                       then [nl 12
                                             @ ''<span class=\"data-chip data-chip-more\" title=\"''
                                             @ nat_text P overflow @ '' item''
                                             @ (if overflow = 1 then [] else ''s'')
                                             @ '' adicionais\">+'' @ nat_text P overflow
                                             @ ''</span>'' @ nl 8]
                                       else []))
                                @ ''</div>''))))))"

text \<open>
  What \<open>renderRow\<close> reads from \<open>window\<close>: \<open>currentOperations\<close>, the position of the
  rendered object in it when it is an array (\<open>indexOf\<close>, -1 when absent),
  \<open>hasKingspanAccess\<close>, and whether \<open>ArmazenagemKingspan\<close> is defined.
\<close>

record window =
  currentOperations :: jsval
  indexOfOperation :: int
  hasKingspanAccess :: jsval
  armazenagemKingspanDefined :: bool

text \<open>
  \<open>a === b\<close> for the values of \<open>ref_importador\<close>. Two objects are equal only when they
  are one object, which the values do not tell: they count as different.
\<close>

fun strict_equal :: "jsval \<Rightarrow> jsval \<Rightarrow> bool" where
  "strict_equal (JNum a) (JNum b) = (a = b \<and> a \<noteq> NaN)"
| "strict_equal (JArr a) b = False"
| "strict_equal (JObj a) b = False"
| "strict_equal a b = (a = b)"

text \<open>
  \<open>currentOperations.findIndex(op => op.ref_importador === operation.ref_importador)\<close>, from position
  \<open>i\<close> on.
\<close>

fun findIndex_ref :: "jsval \<Rightarrow> int \<Rightarrow> jsval list \<Rightarrow> js_error + int" where
  "findIndex_ref r i [] = Inr (- 1)"
| "findIndex_ref r i (item # items) =
     (case js_get item ''ref_importador'' of
        Inl e \<Rightarrow> Inl e
      | Inr v \<Rightarrow> if strict_equal v r then Inr i else findIndex_ref r (i + 1) items)"

text \<open>The values \<open>renderRow\<close> computes before it renders the cells.\<close>

record prepared =
  modalIndex :: int
  isKingspanProcess :: bool
  hasProdutos :: bool
  hasArmazenagemData :: bool
  exportadorFull :: jsval
  exportadorDisplay :: jsval
  statusDisplay :: jsval
  custoTotal :: jsval
  urfValue :: jsval
  canalContent :: string
  produtosResumo :: jsval
  despesasResumo :: jsval

definition prepare :: "platform \<Rightarrow> window \<Rightarrow> jsval \<Rightarrow> js_error + prepared" where
  "prepare P w operation =
     js_bind (js_get operation ''ref_importador'') (\<lambda>ref_importador.
     js_bind (if is_array (currentOperations w)
              then findIndex_ref ref_importador 0 (array_items (currentOperations w))
              else Inr (- 1)) (\<lambda>globalIndex.
     js_bind (case js_or (js_prop operation ''importador'') (JStr []) of
                JStr s \<Rightarrow> Inr (js_includes (toUpperCase s) ''KING'')
              | _ \<Rightarrow> Inl TypeError) (\<lambda>kingspan.
     js_bind (hasArmazenagemDetails P operation) (\<lambda>armazenagem.
     js_bind (let full = js_or (js_prop operation ''exportador_fornecedor'') (JStr ''-'')
              in case full of
                   JStr s \<Rightarrow> Inr (if 18 < length s then JStr (take 18 s @ [CHR 0xE2, CHR 0x80, CHR 0xA6]) else full)
                 | JArr xs \<Rightarrow> if 18 < length xs then Inl TypeError else Inr full
                 | JObj kvs \<Rightarrow>
                     js_bind (js_Number P (js_prop full ''length''))
                       (\<lambda>n. if js_gt n (Fin 18) then Inl TypeError else Inr full)
                 | _ \<Rightarrow> Inr full) (\<lambda>display.
     js_bind (let s = js_prop operation ''status_sistema''
              in if \<not> truthy s then Inr True
                 else (case s of JStr t \<Rightarrow> Inr (js_trim t = []) | _ \<Rightarrow> Inl TypeError)) (\<lambda>blank.
     let fallbackIndex = (if is_array (currentOperations w) then indexOfOperation w else - 1);
         despesas = js_prop operation ''despesas_processo'';
         expenseData = (if is_array despesas \<and> array_items despesas \<noteq> []
                        then processExpensesByCategory P despesas else JNull);
         view = js_prop operation ''custo_total_view'';
         custo = js_prop operation ''custo_total'';
         normalizado = js_prop operation ''urf_despacho_normalizado''
     in
     js_bind (if truthy view then js_bind (js_Number P view) (\<lambda>n. Inr (js_gt n (Fin 0)))
              else Inr False) (\<lambda>viewPositive.
     js_bind (if viewPositive then Inr False
              else if truthy custo then js_bind (js_Number P custo) (\<lambda>n. Inr (js_gt n (Fin 0)))
              else Inr False) (\<lambda>custoPositive.
     js_bind (getCanalIndicator P
                (js_or (js_prop operation ''canal'')
                  (js_or (js_prop operation ''canal_parametrizado'') (JStr ''-'')))) (\<lambda>canal.
     js_bind (if truthy (js_prop operation ''__produtos_summary'')
              then Inr (js_prop operation ''__produtos_summary'')
              else summarizeProdutos P operation 3) (\<lambda>produtos.
     js_bind (summarizeDespesas P expenseData operation 3) (\<lambda>despesas.
       Inr \<lparr>modalIndex = (if - 1 < globalIndex then globalIndex else fallbackIndex),
            isKingspanProcess = kingspan,
            hasProdutos = (is_array (js_prop operation ''produtos_processo'')
                           \<and> array_items (js_prop operation ''produtos_processo'') \<noteq> []),
            hasArmazenagemData = armazenagem,
            exportadorFull = js_or (js_prop operation ''exportador_fornecedor'') (JStr ''-''),
            exportadorDisplay = display,
            statusDisplay =
              (if blank
               then js_or (js_prop operation ''status_processo'')
                      (js_or (js_prop operation ''status'') (JStr ''Sem Info''))
               else js_prop operation ''status_sistema''),
            custoTotal =
              (if viewPositive then view
               else if custoPositive then custo
               else if truthy expenseData
               then js_or (js_prop expenseData ''total'') (JNum (Fin 0))
               else JNum (Fin 0)),
            urfValue =
              (if truthy normalizado \<and> normalizado \<noteq> JStr ''N/A'' then normalizado
               else js_or (js_prop operation ''urf_despacho'') (JStr ''-'')),
            canalContent = canal,
            produtosResumo = produtos,
            despesasResumo = despesas\<rparr>)))))))))))"

text \<open>\<open>x || '-'\<close> inside a template literal.\<close>

definition or_dash :: "platform \<Rightarrow> jsval \<Rightarrow> js_error + string" where
  "or_dash P v = js_String P (js_or v (JStr ''-''))"

text \<open>The cell of the column \<open>acoes\<close>.\<close>

definition acoes_cell :: "platform \<Rightarrow> window \<Rightarrow> prepared \<Rightarrow> string" where
  "acoes_cell P w pre =
     (let view_button =
            (if - 1 < modalIndex pre
             then nl 28 @ ''<button class=\"table-action-btn\" onclick=\"openProcessModal(''
                  @ int_text P (modalIndex pre) @ '')\" title=\"Ver detalhes\">''
                  @ nl 32 @ ''<i class=\"mdi mdi-eye-outline\"></i>''
                  @ nl 28 @ ''</button>'' @ nl 24
             else nl 28 @ (''<button class=\"table-action-btn\" disabled title=\"Processo indispon'' @ [CHR 0xED] @ ''vel\">'')
                  @ nl 32 @ ''<i class=\"mdi mdi-eye-off-outline\"></i>''
                  @ nl 28 @ ''</button>'' @ nl 24);
          allowBagagem = ((isKingspanProcess pre \<and> truthy (hasKingspanAccess w))
                          \<or> hasProdutos pre \<or> hasArmazenagemData pre);
          bag_button =
            (if allowBagagem \<and> armazenagemKingspanDefined w \<and> - 1 < modalIndex pre
             then nl 32 @ ''<button class=\"table-action-btn\" onclick=\"openArmazenagemModal(''
                  @ int_text P (modalIndex pre) @ '')\" title=\"''
                  @ (if hasProdutos pre \<and> hasArmazenagemData pre
                     then (''Ver produtos e informa'' @ [CHR 0xE7, CHR 0xF5] @ ''es de armazenagem'')
                     else if hasProdutos pre then ''Ver produtos detalhados''
                     else (''Ver informa'' @ [CHR 0xE7, CHR 0xF5] @ ''es de armazenagem''))
                  @ ''\">''
                  @ nl 36 @ ''<i class=\"mdi mdi-bag-suitcase''
                  @ (if hasProdutos pre \<or> hasArmazenagemData pre then [] else ''-outline'')
                  @ ''\"></i>''
                  @ nl 32 @ ''</button>'' @ nl 28
             else [])
      in ''<td>'' @ view_button @ bag_button @ ''</td>'')"

text \<open>
  The \<open>switch (column.id)\<close> of \<open>renderRow\<close>: the markup of one cell. The tests follow the
  order of the \<open>case\<close> labels; labels with the same statement are tested together.
\<close>

definition renderCell ::
  "platform \<Rightarrow> window \<Rightarrow> prepared \<Rightarrow> jsval \<Rightarrow> string \<Rightarrow> js_error + string" where
  "renderCell P w pre operation column_id =
     (if column_id = ''acoes'' then Inr (acoes_cell P w pre)
      else if column_id = ''ref_importador''
      then template [Inr ''<td><strong>'', or_dash P (js_prop operation ''ref_importador''),
                     Inr ''</strong></td>'']
      else if column_id = ''importador''
      then template [Inr ''<td>'', or_dash P (js_prop operation ''importador''), Inr ''</td>'']
      else if column_id = ''data_abertura''
      then template [Inr ''<td>'', formatDate P (js_prop operation ''data_abertura''),
                     Inr ''</td>'']
      else if column_id = ''exportador''
      then template [Inr ''<td title=\"'', js_String P (exportadorFull pre), Inr ''\">'',
                     js_String P (exportadorDisplay pre), Inr ''</td>'']
      else if column_id = ''modal''
      then template [Inr ''<td>'', getModalBadge P (js_prop operation ''modal''), Inr ''</td>'']
      else if column_id = ''status''
      then template [Inr ''<td>'', getStatusBadge P (statusDisplay pre), Inr ''</td>'']
      else if column_id = ''custos''
      then template [Inr ''<td><span class=\"currency-value\">'',
                     formatCurrency P (custoTotal pre), Inr ''</span></td>'']
      else if column_id = ''data_chegada''
      then template [Inr ''<td>'', formatDataChegada P (js_prop operation ''data_chegada''),
                     Inr ''</td>'']
      else if column_id = ''presenca_carga''
      then template [Inr ''<td>'', or_dash P (js_prop operation ''presenca_carga''),
                     Inr ''</td>'']
      else if column_id = ''data_embarque''
      then template [Inr ''<td>'', formatDate P (js_prop operation ''data_embarque''),
                     Inr ''</td>'']
      else if column_id = ''transit_time''
      then (let transitTime = js_or (js_prop operation ''transit_time'')
                                (js_prop operation ''transit_time_real'')
            in template [Inr ''<td>'',
                         (if truthy transitTime
                          then template [js_String P transitTime, Inr '' dias'']
                          else Inr ''-''),
                         Inr ''</td>''])
      else if column_id = ''mercadoria''
      then template [Inr ''<td>'', or_dash P (js_prop operation ''mercadoria''), Inr ''</td>'']
      else if column_id = ''produtos''
      then js_bind (if truthy (js_prop (produtosResumo pre) ''tooltip'')
                    then js_bind (escapeHtml P (js_prop (produtosResumo pre) ''tooltip''))
                           (\<lambda>s. Inr (replaceAll (CHR 0x0A) ''&#10;'' s))
                    else Inr []) (\<lambda>tooltip.
           js_bind (createChipListMarkup P (js_prop (produtosResumo pre) ''entries'') 4)
             (\<lambda>chipsMarkup.
           js_bind (escapeHtml P (js_or (js_prop (produtosResumo pre) ''text'') (JStr ''-'')))
             (\<lambda>text.
                Inr (''<td'' @ (if tooltip \<noteq> [] then '' title=\"'' @ tooltip @ ''\"'' else [])
                     @ ''>''
                     @ (case chipsMarkup of
                          Some markup \<Rightarrow> markup
                        | None \<Rightarrow> if text \<noteq> [] then text else ''-'')
                     @ ''</td>''))))
      else if column_id = ''container''
      then js_bind (if is_array (js_prop operation ''__container_values'')
                    then Inr (js_prop operation ''__container_values'')
                    else js_bind (extractContainerValues P operation)
                           (\<lambda>texts. Inr (JArr (map JStr texts)))) (\<lambda>containerValues.
           js_bind (createChipListMarkup P containerValues 6) (\<lambda>chipsMarkup.
             Inr (''<td>''
                  @ (case chipsMarkup of Some markup \<Rightarrow> markup | None \<Rightarrow> ''-'')
                  @ ''</td>'')))
      else if column_id = ''peso_bruto''
      then js_bind (normalizePesoBruto P
                      (js_or (js_prop operation ''peso_bruto'')
                        (js_or (js_prop operation ''peso_bruto_kg'')
                          (js_prop operation ''peso_bruto_total'')))) (\<lambda>pesoNormalized.
             template [Inr ''<td>'',
                       (if truthy (JNum pesoNormalized)
                        then template [formatNumber P (JNum pesoNormalized) 2, Inr '' kg'']
                        else Inr ''-''),
                       Inr ''</td>''])
      else if column_id = ''despesas''
      then js_bind (escapeHtml P (js_or (js_prop (despesasResumo pre) ''text'') (JStr ''-'')))
             (\<lambda>text.
           js_bind (if truthy (js_prop (despesasResumo pre) ''tooltip'')
                    then js_bind (escapeHtml P (js_prop (despesasResumo pre) ''tooltip''))
                           (\<lambda>s. Inr (replaceAll (CHR 0x0A) ''&#10;'' s))
                    else Inr []) (\<lambda>tooltip.
             Inr (''<td'' @ (if tooltip \<noteq> [] then '' title=\"'' @ tooltip @ ''\"'' else [])
                  @ ''>'' @ (if text \<noteq> [] then text else ''-'') @ ''</td>'')))
      else if column_id = ''urf''
      then template [Inr ''<td>'', js_String P (urfValue pre), Inr ''</td>'']
      else if column_id = ''numero_di''
      then template [Inr ''<td>'',
                     js_String P (js_or (js_prop operation ''numero_di'')
                                   (js_or (js_prop operation ''numero_declaracao'') (JStr ''-''))),
                     Inr ''</td>'']
      else if column_id = ''data_registro''
      then template [Inr ''<td>'',
                     formatDate P (js_or (js_prop operation ''data_registro'')
                                    (js_prop operation ''data_registro_di'')),
                     Inr ''</td>'']
      else if column_id = ''canal''
      then Inr (''<td>'' @ canalContent pre @ ''</td>'')
      else if column_id = ''pais''
      then template [Inr ''<td>'',
                     or_dash P (js_or (js_prop operation ''pais'')
                                 (js_or (js_prop operation ''pais_procedencia_normalizado'')
                                   (js_prop operation ''pais_procedencia''))),
                     Inr ''</td>'']
      else if column_id \<in> set [''data_desova'', ''limite_primeiro_periodo'',
                                 ''limite_segundo_periodo'', ''dias_extras_armazenagem'',
                                 ''valor_despesas_extras'']
      then template [Inr ''<td>'',
                     js_bind (getArmazenagemDisplay P operation column_id)
                       (\<lambda>s. escapeHtml P (JStr s)),
                     Inr ''</td>'']
      else if column_id \<in> set [''po_cliente'', ''referencia_exportador'', ''codigo_produto'',
                                 ''filial_codigo'', ''licenca_importacao'', ''freetime'']
      then template [Inr ''<td>'',
                     escapeHtml P (js_or (js_prop operation column_id) (JStr ''-'')),
                     Inr ''</td>'']
      else if column_id = ''etb''
      then template [Inr ''<td>'', formatDate P (js_prop operation ''etb''), Inr ''</td>'']
      else if column_id \<in> set [''navio'', ''armador_agente_trade'', ''moeda'']
      then template [Inr ''<td>'',
                     escapeHtml P (js_or (js_prop operation column_id) (JStr ''-'')),
                     Inr ''</td>'']
      else if column_id = ''total_pedido_moeda_origem''
      then (let pedido = js_prop operation ''total_pedido_moeda_origem''
            in template [Inr ''<td>'',
                         (if truthy pedido then formatCurrency P pedido else Inr ''-''),
                         Inr ''</td>''])
      else if column_id = ''ptax''
      then (let ptax = js_prop operation ''ptax''
            in template [Inr ''<td>'',
                         (if truthy ptax
                          then js_bind (js_Number P ptax) (\<lambda>n. Inr (toFixed4 P n))
                          else Inr ''-''),
                         Inr ''</td>''])
      else if column_id = ''incoterm''
      then template [Inr ''<td>'',
                     escapeHtml P (js_or (js_prop operation ''incoterm'') (JStr ''-'')),
                     Inr ''</td>'']
      else Inr ''<td>-</td>'')"

text \<open>The cell that \<open>renderRow\<close> returns when no column is visible.\<close>

definition columns_unavailable :: string where
  "columns_unavailable =
     ''<td colspan=\"1\">Configura'' @ [CHR 0xE7, CHR 0xE3] @ ''o de colunas indispon''
     @ [CHR 0xED] @ ''vel</td>''"

text \<open>
  \<open>recentOperationsTable.renderRow(operation)\<close>, with the result of
  \<open>getVisibleColumns()\<close> as an argument. It returns the markup of the row and the
  operation, on which the summary of the products is now stored.
\<close>

definition renderRow ::
  "platform \<Rightarrow> window \<Rightarrow> ColumnDefinition list \<Rightarrow> jsval \<Rightarrow> js_error + (string \<times> jsval)" where
  "renderRow P w visibleColumns operation =
     (if visibleColumns = [] then Inr (columns_unavailable, operation)
      else js_bind (prepare P w operation) (\<lambda>pre.
             let operation1 =
                   (if \<not> truthy (js_prop operation ''__produtos_summary'')
                    then js_set
                           (js_set
                             (js_set operation ''__produtos_summary'' (produtosResumo pre))
                             ''__produtos_entries'' (js_prop (produtosResumo pre) ''entries''))
                           ''__produtos_tooltip'' (js_prop (produtosResumo pre) ''tooltip'')
                    else operation)
             in js_bind (js_map (\<lambda>column. renderCell P w pre operation1 (col_id column))
                           visibleColumns)
                  (\<lambda>cells. Inr (concat cells, operation1))))"

text \<open>
  The text of a piece of markup: what is left when the tags are taken out.
\<close>

fun text_content :: "bool \<Rightarrow> string \<Rightarrow> string" where
  "text_content in_tag [] = []"
| "text_content in_tag (c # cs) =
     (if in_tag then text_content (c \<noteq> CHR ''>'') cs
      else if c = CHR ''<'' then text_content True cs
      else c # text_content False cs)"

text \<open>A value that is \<open>null\<close> or \<open>undefined\<close>.\<close>

definition absent :: "jsval \<Rightarrow> bool" where
  "absent v = (v = JNull \<or> v = JUndefined)"

text \<open>
  The fields that the code derives from a record and stores on it
  (\<open>updateRecentOperationsTable\<close>, \<open>renderRow\<close>).
\<close>

definition derived_fields :: "string list" where
  "derived_fields =
     [''__container_values'', ''__container_sort'', ''__produtos_summary'',
      ''__produtos_entries'', ''__produtos_tooltip'']"

text \<open>
  An operation in which every optional field is absent: each field that is there and is
  not a derived one is \<open>null\<close> or \<open>undefined\<close>. The two derived fields that \<open>renderRow\<close>
  reads, \<open>__produtos_summary\<close> and \<open>__container_values\<close>, are absent or hold what the code
  derives from such a record: the summary of no products, and no container.
\<close>

definition optional_absent :: "jsval \<Rightarrow> bool" where
  "optional_absent operation =
     (case operation of
        JObj kvs \<Rightarrow>
          list_all (\<lambda>(k, v). k \<in> set derived_fields \<or> absent v) kvs
          \<and> js_prop operation ''__produtos_summary'' \<in> set [JUndefined, JNull, no_produtos]
          \<and> js_prop operation ''__container_values'' \<in> set [JUndefined, JNull, JArr []]
      | _ \<Rightarrow> False)"

text \<open>
  \<open>window.currentOperations\<close> is no array, or an array without \<open>null\<close> and
  \<open>undefined\<close>.
\<close>

definition operations_readable :: "window \<Rightarrow> bool" where
  "operations_readable w =
     list_all (\<lambda>item. item \<noteq> JNull \<and> item \<noteq> JUndefined)
       (array_items (currentOperations w))"

text \<open>
  The values \<open>renderRow\<close> derives, before it dispatches on the columns, from an operation
  whose optional fields are all absent; \<open>i\<close> is the index found for the details button.
\<close>

definition absent_prepared :: "platform \<Rightarrow> int \<Rightarrow> prepared" where
  "absent_prepared P i =
     \<lparr>modalIndex = i, isKingspanProcess = False, hasProdutos = False,
      hasArmazenagemData = False, exportadorFull = JStr ''-'', exportadorDisplay = JStr ''-'',
      statusDisplay = JStr ''Sem Info'', custoTotal = JNum (Fin 0), urfValue = JStr ''-'',
      canalContent = ''<span class=\"canal-indicator\"><span class=\"canal-dot neutro\"></span><span class=\"canal-text\">-</span></span>'',
      produtosResumo = no_produtos,
      despesasResumo = JObj [(''text'', JStr ''-'')]\<rparr>"

text \<open>
  The operation as \<open>renderRow\<close> leaves it: when there was no summary of the products, the
  summary of no products is now stored on it.
\<close>

definition memoized :: "jsval \<Rightarrow> jsval" where
  "memoized operation =
     (if \<not> truthy (js_prop operation ''__produtos_summary'')
      then js_set
             (js_set (js_set operation ''__produtos_summary'' no_produtos)
                ''__produtos_entries'' (JArr []))
             ''__produtos_tooltip'' JUndefined
      else operation)"

text \<open>A page, a column and two records to run the renderer on.\<close>

definition sample_window :: window where
  "sample_window =
     \<lparr>currentOperations = JUndefined, indexOfOperation = - 1, hasKingspanAccess = JUndefined,
      armazenagemKingspanDefined = False\<rparr>"

definition column :: "string \<Rightarrow> ColumnDefinition" where
  "column c = \<lparr>col_id = c, col_visible = True, col_fixed = False, col_order = Fin 0\<rparr>"

definition absent_operation :: jsval where
  "absent_operation = JObj [(''modal'', JNull), (''status_sistema'', JUndefined)]"

definition rendered_operation :: jsval where
  "rendered_operation =
     JObj [(''modal'', JNull), (''__container_values'', JArr []), (''__container_sort'', JStr []),
           (''__produtos_summary'', no_produtos), (''__produtos_entries'', JArr []),
           (''__produtos_tooltip'', JUndefined)]"

section \<open>Properties of escapeHtml\<close>

lemma replaceAll_Nil: "replaceAll c r [] = []"
  by (simp add: replaceAll_def)

lemma replaceAll_Cons: "replaceAll c r (x # xs) = (if x = c then r else [x]) @ replaceAll c r xs"
  by (simp add: replaceAll_def)

lemma set_replaceAll: "set (replaceAll c r s) \<subseteq> (set s - {c}) \<union> set r"
  by (induction s) (auto simp: replaceAll_Nil replaceAll_Cons)

lemma starts_with_append: "starts_with e (e @ s)"
  by (induction e) auto

lemma starts_with_replaceAll:
  "starts_with e s \<Longrightarrow> c \<notin> set e \<Longrightarrow> starts_with e (replaceAll c r s)"
proof (induction e s rule: starts_with.induct)
  case (1 s)
  then show ?case by simp
next
  case (2 p ps)
  then show ?case by simp
next
  case (3 p ps x xs)
  then show ?case by (auto simp: replaceAll_Cons)
qed

lemma amp_only_append_plain:
  "CHR ''&'' \<notin> set xs \<Longrightarrow> amp_only_in_entities s \<Longrightarrow> amp_only_in_entities (xs @ s)"
  by (induction xs) auto

lemma amp_only_entity_append:
  assumes e: "e \<in> set entities" and s: "amp_only_in_entities s"
  shows "amp_only_in_entities (e @ s)"
proof -
  from e obtain t where t: "e = CHR ''&'' # t" "CHR ''&'' \<notin> set t"
    by (auto simp: entities_def)
  have "starts_with e (e @ s)" by (rule starts_with_append)
  with e have "\<exists>e' \<in> set entities. starts_with e' (e @ s)"
    by blast
  then have "\<exists>e' \<in> set entities. starts_with e' (CHR ''&'' # t @ s)"
    by (simp only: t(1) append_Cons)
  moreover have "amp_only_in_entities (t @ s)"
    using t(2) s by (rule amp_only_append_plain)
  ultimately show ?thesis by (simp add: t(1))
qed

lemma amp_only_after_amp: "amp_only_in_entities (replaceAll (CHR ''&'') ''&amp;'' s)"
proof (induction s)
  case Nil
  show ?case by (simp add: replaceAll_Nil)
next
  case (Cons x xs)
  show ?case
  proof (cases "x = CHR ''&''")
    case True
    have "amp_only_in_entities (''&amp;'' @ replaceAll (CHR ''&'') ''&amp;'' xs)"
      by (rule amp_only_entity_append) (simp_all add: entities_def Cons.IH)
    with True show ?thesis by (simp add: replaceAll_Cons)
  next
    case False
    with Cons.IH show ?thesis by (simp add: replaceAll_Cons)
  qed
qed

lemma amp_only_replaceAll:
  assumes r: "r \<in> set entities" and c: "\<forall>e \<in> set entities. c \<notin> set e"
  shows "amp_only_in_entities s \<Longrightarrow> amp_only_in_entities (replaceAll c r s)"
proof (induction s)
  case Nil
  show ?case by (simp add: replaceAll_Nil)
next
  case (Cons x xs)
  from Cons.prems have tl: "amp_only_in_entities xs" by simp
  have IH: "amp_only_in_entities (replaceAll c r xs)" using Cons.IH tl .
  show ?case
  proof (cases "x = c")
    case True
    have "amp_only_in_entities (r @ replaceAll c r xs)"
      using r IH by (rule amp_only_entity_append)
    with True show ?thesis by (simp add: replaceAll_Cons)
  next
    case False
    show ?thesis
    proof (cases "x = CHR ''&''")
      case amp: True
      with Cons.prems obtain e where e: "e \<in> set entities" "starts_with e (x # xs)"
        by auto
      from e(1) c have "c \<notin> set e" by blast
      with e(2) have "starts_with e (replaceAll c r (x # xs))"
        by (rule starts_with_replaceAll)
      with False have "starts_with e (x # replaceAll c r xs)"
        by (simp add: replaceAll_Cons)
      with e(1) IH False show ?thesis by (auto simp: replaceAll_Cons)
    next
      case plain: False
      with False IH show ?thesis by (simp add: replaceAll_Cons)
    qed
  qed
qed

lemma markup_not_in_entities:
  "c \<in> {CHR ''<'', CHR ''>'', CHR 0x22, CHR 0x27} \<Longrightarrow> \<forall>e \<in> set entities. c \<notin> set e"
  by (auto simp: entities_def)

lemma escaped_text:
  fixes str :: string
  defines "s \<equiv> replaceAll (CHR 0x27) ''&#39;''
                 (replaceAll (CHR 0x22) ''&quot;''
                   (replaceAll (CHR ''>'') ''&gt;''
                     (replaceAll (CHR ''<'') ''&lt;''
                       (replaceAll (CHR ''&'') ''&amp;'' str))))"
  shows "set s \<inter> {CHR ''<'', CHR ''>'', CHR 0x22, CHR 0x27} = {} \<and> amp_only_in_entities s"
proof -
  define s0 where "s0 = replaceAll (CHR ''&'') ''&amp;'' str"
  define s1 where "s1 = replaceAll (CHR ''<'') ''&lt;'' s0"
  define s2 where "s2 = replaceAll (CHR ''>'') ''&gt;'' s1"
  define s3 where "s3 = replaceAll (CHR 0x22) ''&quot;'' s2"
  define s4 where "s4 = replaceAll (CHR 0x27) ''&#39;'' s3"
  have a0: "amp_only_in_entities s0"
    unfolding s0_def by (rule amp_only_after_amp)
  have a1: "amp_only_in_entities s1"
    unfolding s1_def by (rule amp_only_replaceAll [OF _ markup_not_in_entities a0])
      (simp_all add: entities_def)
  have a2: "amp_only_in_entities s2"
    unfolding s2_def by (rule amp_only_replaceAll [OF _ markup_not_in_entities a1])
      (simp_all add: entities_def)
  have a3: "amp_only_in_entities s3"
    unfolding s3_def by (rule amp_only_replaceAll [OF _ markup_not_in_entities a2])
      (simp_all add: entities_def)
  have a4: "amp_only_in_entities s4"
    unfolding s4_def by (rule amp_only_replaceAll [OF _ markup_not_in_entities a3])
      (simp_all add: entities_def)
  have m1: "CHR ''<'' \<notin> set s1"
    using set_replaceAll [of "CHR ''<''" "''&lt;''" s0] unfolding s1_def by auto
  have m2: "CHR ''<'' \<notin> set s2 \<and> CHR ''>'' \<notin> set s2"
    using set_replaceAll [of "CHR ''>''" "''&gt;''" s1] m1 unfolding s2_def by auto
  have m3: "CHR ''<'' \<notin> set s3 \<and> CHR ''>'' \<notin> set s3 \<and> CHR 0x22 \<notin> set s3"
    using set_replaceAll [of "CHR 0x22" "''&quot;''" s2] m2 unfolding s3_def by auto
  have m4: "CHR ''<'' \<notin> set s4 \<and> CHR ''>'' \<notin> set s4 \<and> CHR 0x22 \<notin> set s4
            \<and> CHR 0x27 \<notin> set s4"
    using set_replaceAll [of "CHR 0x27" "''&#39;''" s3] m3 unfolding s4_def by auto
  have "s = s4"
    by (simp add: s_def s0_def s1_def s2_def s3_def s4_def)
  with a4 m4 show ?thesis by auto
qed

lemma js_String_stringable:
  "(stringable v \<longrightarrow> (\<exists>s. js_String P v = Inr s))
   \<and> (\<not> stringable v \<longrightarrow> js_String P v = Inl TypeError)"
  "(list_all stringable xs \<longrightarrow> (\<exists>texts. js_String_items P xs = Inr texts))
   \<and> (\<not> list_all stringable xs \<longrightarrow> js_String_items P xs = Inl TypeError)"
proof (induction P v and P xs rule: js_String_js_String_items.induct)
  case (6 P xs)
  then show ?case by (cases "list_all stringable xs") auto
next
  case (9 P x xs)
  then show ?case
    by (cases "x = JNull \<or> x = JUndefined"; cases "stringable x";
        cases "list_all stringable xs") auto
qed simp_all

lemma js_String_returns: "stringable v \<Longrightarrow> \<exists>s. js_String P v = Inr s"
  using js_String_stringable(1) [of v P] by blast

lemma js_String_throws: "\<not> stringable v \<Longrightarrow> js_String P v = Inl TypeError"
  using js_String_stringable(1) [of v P] by blast

text \<open>
  C10, as the code has it. For every input value that \<open>String\<close> converts, \<open>escapeHtml\<close>
  returns a text that holds none of the characters \<open><\<close>, \<open>>\<close>, double quote and single
  quote, and in which every ampersand is the first character of one of the entities
  \<open>&amp;\<close>, \<open>&lt;\<close>, \<open>&gt;\<close>, \<open>&quot;\<close>, \<open>&#39;\<close>. For every other input value, an
  object with a property \<open>toString\<close> of its own or an array holding one, \<open>escapeHtml\<close>
  throws a TypeError. \<open>null\<close> and \<open>undefined\<close> give the empty string.
\<close>

theorem escapeHtml_output_escaped:
  "(stringable v \<longrightarrow>
      (\<exists>s. escapeHtml P v = Inr s
           \<and> set s \<inter> {CHR ''<'', CHR ''>'', CHR 0x22, CHR 0x27} = {}
           \<and> amp_only_in_entities s))
   \<and> (\<not> stringable v \<longrightarrow> escapeHtml P v = Inl TypeError)
   \<and> escapeHtml P JNull = Inr []
   \<and> escapeHtml P JUndefined = Inr []"
proof (intro conjI impI)
  assume "stringable v"
  then obtain str where str: "js_String P v = Inr str"
    using js_String_returns by blast
  show "\<exists>s. escapeHtml P v = Inr s
           \<and> set s \<inter> {CHR ''<'', CHR ''>'', CHR 0x22, CHR 0x27} = {}
           \<and> amp_only_in_entities s"
  proof (cases "v = JNull \<or> v = JUndefined")
    case True
    then show ?thesis by (auto simp: escapeHtml_def)
  next
    case False
    with str escaped_text [of str] show ?thesis
      by (simp add: escapeHtml_def js_bind_def)
  qed
next
  assume n: "\<not> stringable v"
  then have "v \<noteq> JNull" "v \<noteq> JUndefined" by auto
  with js_String_throws [OF n, of P] show "escapeHtml P v = Inl TypeError"
    by (simp add: escapeHtml_def js_bind_def)
qed (simp_all add: escapeHtml_def)

theorem escapeHtml_output_escaped_witness:
  "stringable (JArr [JStr ''<b>'', JNull, JStr ''R&D''])
   \<and> (\<exists>s. escapeHtml sample_platform (JArr [JStr ''<b>'', JNull, JStr ''R&D'']) = Inr s
            \<and> set s \<inter> {CHR ''<'', CHR ''>'', CHR 0x22, CHR 0x27} = {}
            \<and> amp_only_in_entities s)
   \<and> \<not> stringable (JArr [JObj [(''toString'', JNull)]])
   \<and> escapeHtml sample_platform (JArr [JObj [(''toString'', JNull)]]) = Inl TypeError"
proof -
  have a: "stringable (JArr [JStr ''<b>'', JNull, JStr ''R&D''])" by simp
  have b: "\<not> stringable (JArr [JObj [(''toString'', JNull)]])" by simp
  note T1 = escapeHtml_output_escaped
    [of "JArr [JStr ''<b>'', JNull, JStr ''R&D'']" sample_platform]
  note T2 = escapeHtml_output_escaped [of "JArr [JObj [(''toString'', JNull)]]" sample_platform]
  from T1 a have c: "\<exists>s. escapeHtml sample_platform (JArr [JStr ''<b>'', JNull, JStr ''R&D''])
            = Inr s
            \<and> set s \<inter> {CHR ''<'', CHR ''>'', CHR 0x22, CHR 0x27} = {}
            \<and> amp_only_in_entities s"
    by blast
  from T2 b have d: "escapeHtml sample_platform (JArr [JObj [(''toString'', JNull)]])
      = Inl TypeError"
    by blast
  from a c b d show ?thesis by (intro conjI)
qed

text \<open>
  The claim C10 as stated, for every input value, fails at an object with a property
  \<open>toString\<close>: \<open>String\<close> throws a TypeError and \<open>escapeHtml\<close> returns no text.
\<close>

theorem escapeHtml_throws_counterexample:
  "escapeHtml sample_platform (JObj [(''toString'', JStr ''x'')]) = Inl TypeError"
  by (simp add: escapeHtml_def js_bind_def)

section \<open>Properties of the dashboard cache\<close>

lemma slot_slot_update: "slot k (slot_update k' v c) = (if k = k' then v else slot k c)"
  by (cases k; cases k') simp_all

lemma slot_lastUpdate_update: "slot k (c\<lparr>lastUpdate := u\<rparr>) = slot k c"
  by (cases k) simp_all

lemma slot_cache_set: "slot k (cache_set t k' v c) = (if k = k' then v else slot k c)"
  by (simp add: cache_set_def slot_lastUpdate_update slot_slot_update)

lemma isValid_cache_set: "isValid t' (cache_set t k v c) = (t \<noteq> 0 \<and> t' - t < cacheTimeout)"
  by (simp add: isValid_def cache_set_def)

lemma isValid_invalidate: "\<not> isValid t (invalidate c)"
  by (simp add: isValid_def invalidate_def)

text \<open>
  C4, as the code has it. For every truthy value \<open>X\<close> and every kind, \<open>set\<close> at a nonzero
  clock reading followed by \<open>get\<close> less than \<open>cacheTimeout\<close> later (in particular
  immediately) returns \<open>X\<close>; for a falsy \<open>X\<close>, \<open>get\<close> returns \<open>null\<close> whenever it is called;
  after \<open>invalidate\<close>, \<open>get\<close> of any kind returns \<open>null\<close>; and once \<open>cacheTimeout\<close> (five
  minutes) has elapsed since the last \<open>set\<close>, \<open>get\<close> of any kind returns \<open>null\<close>.
\<close>

theorem cache_set_get_invalidate_expire:
  "(truthy X \<and> t \<noteq> 0 \<and> t' - t < cacheTimeout \<longrightarrow> cache_get t' k (cache_set t k X c) = X)
   \<and> (\<not> truthy X \<longrightarrow> cache_get t' k (cache_set t k X c) = JNull)
   \<and> cache_get t' k (invalidate c) = JNull
   \<and> (cacheTimeout \<le> t' - t \<longrightarrow> cache_get t' k (cache_set t k0 v c) = JNull)
   \<and> cacheTimeout = 300000"
  by (simp add: cache_get_def isValid_cache_set isValid_invalidate slot_cache_set
      cacheTimeout_def)

theorem cache_set_get_invalidate_expire_witness:
  "cache_get 1000 Kpis (cache_set 1000 Kpis (JObj [(''processos_abertos'', JNum (Fin 7))])
      dashboardCache_initial) = JObj [(''processos_abertos'', JNum (Fin 7))]
   \<and> cache_get 1000 Kpis (cache_set 1000 Kpis (JStr []) dashboardCache_initial) = JNull
   \<and> cache_get 301000 Charts (cache_set 1000 Kpis (JObj []) (cache_set 900 Charts (JObj [])
      dashboardCache_initial)) = JNull"
proof -
  have h1: "truthy (JObj [(''processos_abertos'', JNum (Fin 7))]) \<and> (1000::int) \<noteq> 0
            \<and> (1000::int) - 1000 < cacheTimeout"
    by (simp add: cacheTimeout_def)
  have h2: "cacheTimeout \<le> 301000 - 1000"
    by (simp add: cacheTimeout_def)
  have h3: "\<not> truthy (JStr [])"
    by simp
  note T1 = cache_set_get_invalidate_expire
    [of "JObj [(''processos_abertos'', JNum (Fin 7))]" 1000 1000 Kpis dashboardCache_initial]
  note T2 = cache_set_get_invalidate_expire
    [of JNull 1000 301000 Charts "cache_set 900 Charts (JObj []) dashboardCache_initial"
      Kpis "JObj []"]
  note T3 = cache_set_get_invalidate_expire [of "JStr []" 1000 1000 Kpis dashboardCache_initial]
  from T1 h1 have a: "cache_get 1000 Kpis (cache_set 1000 Kpis
      (JObj [(''processos_abertos'', JNum (Fin 7))]) dashboardCache_initial)
      = JObj [(''processos_abertos'', JNum (Fin 7))]"
    by blast
  from T2 h2 have b: "cache_get 301000 Charts (cache_set 1000 Kpis (JObj [])
      (cache_set 900 Charts (JObj []) dashboardCache_initial)) = JNull"
    by blast
  from T3 h3 have c: "cache_get 1000 Kpis (cache_set 1000 Kpis (JStr []) dashboardCache_initial)
      = JNull"
    by blast
  from a c b show ?thesis by (intro conjI)
qed

text \<open>
  The claim C4 as stated, for every value \<open>X\<close>, fails at the falsy value \<open>0\<close>: \<open>get\<close>
  tests \<open>this[type]\<close> for truth and returns \<open>null\<close>.
\<close>

theorem cache_set_get_falsy_counterexample:
  "cache_get 1000 Kpis (cache_set 1000 Kpis (JNum (Fin 0)) dashboardCache_initial)
     \<noteq> JNum (Fin 0)"
  by (simp add: cache_get_def cache_set_def)

text \<open>
  C5. \<open>invalidate\<close> assigns \<open>null\<close> to \<open>kpis\<close>, \<open>charts\<close>, \<open>operations\<close> and
  \<open>lastUpdate\<close> and leaves \<open>filterOptions\<close> as it was: the filter options stored before
  \<open>invalidate\<close> are still in the cache object afterwards, and \<open>get\<close> serves them again
  as soon as any other kind is set.
\<close>

theorem invalidate_keeps_filterOptions:
  "filterOptions (invalidate (cache_set 1000 FilterOptions
      (JObj [(''modais'', JArr [JStr ''AEREA''])]) dashboardCache_initial))
     = JObj [(''modais'', JArr [JStr ''AEREA''])]
   \<and> cache_get 2000 FilterOptions (cache_set 2000 Kpis (JObj [])
        (invalidate (cache_set 1000 FilterOptions
          (JObj [(''modais'', JArr [JStr ''AEREA''])]) dashboardCache_initial)))
     = JObj [(''modais'', JArr [JStr ''AEREA''])]"
  by (simp add: invalidate_def cache_set_def cache_get_def isValid_def cacheTimeout_def
      dashboardCache_initial_def)

text \<open>
  C8, as the code has it. Validity is shared by the kinds: when a value \<open>x\<close> is stored for
  \<open>k1\<close> at any time \<open>t0\<close> and another kind \<open>k2\<close> is set at \<open>t\<close>, then at every instant less
  than \<open>cacheTimeout\<close> after \<open>t\<close>, whatever time has passed since \<open>t0\<close>, \<open>get\<close> of \<open>k1\<close>
  returns \<open>x\<close> if \<open>x\<close> is truthy, and \<open>null\<close> if \<open>x\<close> is falsy.
\<close>

theorem cache_validity_shared:
  "k1 \<noteq> k2 \<Longrightarrow> t \<noteq> 0 \<Longrightarrow> t' - t < cacheTimeout \<Longrightarrow>
   cache_get t' k1 (cache_set t k2 v (cache_set t0 k1 x c)) = (if truthy x then x else JNull)"
  by (simp add: cache_get_def isValid_cache_set slot_cache_set)

theorem cache_validity_shared_witness:
  "cache_get 5001000 Charts (cache_set 5000000 Kpis (JObj [])
        (cache_set 1000 Charts (JObj [(''monthly'', JObj [])]) dashboardCache_initial))
     = JObj [(''monthly'', JObj [])]
   \<and> cacheTimeout < 5000000 - 1000"
proof -
  have h: "(5001000::int) - 5000000 < cacheTimeout" by (simp add: cacheTimeout_def)
  have "cache_get 5001000 Charts (cache_set 5000000 Kpis (JObj [])
        (cache_set 1000 Charts (JObj [(''monthly'', JObj [])]) dashboardCache_initial))
     = (if truthy (JObj [(''monthly'', JObj [])]) then JObj [(''monthly'', JObj [])] else JNull)"
    by (rule cache_validity_shared [OF _ _ h]) simp_all
  then show ?thesis by (simp add: cacheTimeout_def)
qed

text \<open>
  The claim C8 as stated, for every stored value, fails at a falsy one: the empty text
  stored for \<open>charts\<close> is not what \<open>get\<close> returns one second after \<open>kpis\<close> was set.
\<close>

theorem cache_validity_shared_falsy_counterexample:
  "cache_get 5001000 Charts (cache_set 5000000 Kpis (JObj [])
        (cache_set 1000 Charts (JStr []) dashboardCache_initial))
     \<noteq> JStr []"
  by (simp add: cache_get_def cache_set_def)

section \<open>Properties of the column configuration\<close>

lemma mset_insert_by: "mset (insert_by compare x ys) = add_mset x (mset ys)"
  by (induction ys) auto

lemma mset_js_sort: "mset (js_sort compare xs) = mset xs"
  unfolding js_sort_def by (induction xs) (auto simp: mset_insert_by)

lemma set_js_sort: "set (js_sort compare xs) = set xs"
  using mset_js_sort [of compare xs] by (metis set_mset_mset)

lemma length_js_sort: "length (js_sort compare xs) = length xs"
  using mset_js_sort [of compare xs] by (metis size_mset)

lemma length_assign_index: "length (assign_index xs) = length xs"
  by (simp add: assign_index_def)

lemma nth_assign_index:
  "i < length xs \<Longrightarrow> assign_index xs ! i = (xs ! i)\<lparr>cfg_order := Fin (of_nat i)\<rparr>"
  by (simp add: assign_index_def)

lemma map_cfg_id_assign_index: "map cfg_id (assign_index xs) = map cfg_id xs"
  by (rule nth_equalityI) (simp_all add: length_assign_index nth_assign_index)

lemma map_cfg_visible_assign_index: "map cfg_visible (assign_index xs) = map cfg_visible xs"
  by (rule nth_equalityI) (simp_all add: length_assign_index nth_assign_index)

lemma map_cfg_order_assign_index:
  "map cfg_order (assign_index xs) = map (\<lambda>i. Fin (of_nat i)) [0..<length xs]"
  by (rule nth_equalityI) (simp_all add: length_assign_index nth_assign_index)

lemma map_entries_total:
  "list_all (\<lambda>item. item \<noteq> JNull \<and> item \<noteq> JUndefined) items \<Longrightarrow>
   \<exists>es. map_entries items = Inr es"
proof (induction items)
  case Nil
  show ?case by simp
next
  case (Cons item items)
  then obtain es where es: "map_entries items = Inr es" by auto
  from Cons.prems have "item \<noteq> JNull" "item \<noteq> JUndefined" by auto
  then obtain k where "js_get item ''id'' = Inr k" by (cases item) auto
  with es show ?case by simp
qed

lemma map_entries_throws:
  "\<not> list_all (\<lambda>item. item \<noteq> JNull \<and> item \<noteq> JUndefined) items \<Longrightarrow>
   map_entries items = Inl TypeError"
proof (induction items)
  case Nil
  then show ?case by simp
next
  case (Cons item items)
  show ?case
  proof (cases "item = JNull \<or> item = JUndefined")
    case True
    then show ?thesis by auto
  next
    case False
    then obtain k where "js_get item ''id'' = Inr k" by (cases item) auto
    moreover from False Cons.prems have "map_entries items = Inl TypeError"
      using Cons.IH by simp
    ultimately show ?thesis by simp
  qed
qed

lemma distinct_AVAILABLE_COLUMNS: "distinct (map col_id AVAILABLE_COLUMNS)"
  by (simp add: AVAILABLE_COLUMNS_def)

lemma cfg_id_normalized_entry: "cfg_id (normalized_entry m col) = col_id col"
  by (simp add: normalized_entry_def Let_def)

lemma fixed_normalized_entry: "col_fixed col \<Longrightarrow> cfg_visible (normalized_entry m col)"
  by (simp add: normalized_entry_def Let_def)



lemma normalizeColumnsConfig_throws:
  "\<not> accepted_config config \<Longrightarrow> normalizeColumnsConfig config = Inl TypeError"
  by (cases config)
    (auto simp: accepted_config_def normalizeColumnsConfig_def config_items_def
      map_entries_throws)

lemma normalizeColumnsConfig_shape:
  assumes "accepted_config config"
  shows "\<exists>out. normalizeColumnsConfig config = Inr out
     \<and> mset (map cfg_id out) = mset (map col_id AVAILABLE_COLUMNS)
     \<and> distinct (map cfg_id out)
     \<and> map cfg_order out = map (\<lambda>i. Fin (of_nat i)) [0..<length AVAILABLE_COLUMNS]
     \<and> (\<forall>c \<in> set out. \<forall>col \<in> set AVAILABLE_COLUMNS.
           col_id col = cfg_id c \<and> col_fixed col \<longrightarrow> cfg_visible c)"
proof -
  from assms obtain items where items: "config_items config = Inr items"
    and ok: "list_all (\<lambda>item. item \<noteq> JNull \<and> item \<noteq> JUndefined) items"
    by (cases config) (auto simp: accepted_config_def config_items_def)
  from map_entries_total [OF ok] obtain m where m: "map_entries items = Inr m" ..
  define entries where "entries = map (normalized_entry m) AVAILABLE_COLUMNS"
  define sorted where "sorted = js_sort (\<lambda>a b. js_sub (cfg_order a) (cfg_order b)) entries"
  define out where "out = assign_index sorted"
  have res: "normalizeColumnsConfig config = Inr out"
    by (simp add: normalizeColumnsConfig_def items m out_def sorted_def entries_def)
  have ids_entries: "map cfg_id entries = map col_id AVAILABLE_COLUMNS"
    by (simp add: entries_def cfg_id_normalized_entry)
  have "mset (map cfg_id sorted) = image_mset cfg_id (mset entries)"
    by (simp add: sorted_def mset_js_sort)
  also have "\<dots> = mset (map col_id AVAILABLE_COLUMNS)"
    by (metis ids_entries mset_map)
  finally have ids: "mset (map cfg_id out) = mset (map col_id AVAILABLE_COLUMNS)"
    by (simp add: out_def map_cfg_id_assign_index)
  from ids distinct_AVAILABLE_COLUMNS have dist: "distinct (map cfg_id out)"
    by (metis mset_eq_imp_distinct_iff)
  have len: "length sorted = length AVAILABLE_COLUMNS"
    by (simp add: sorted_def length_js_sort entries_def)
  have ord: "map cfg_order out = map (\<lambda>i. Fin (of_nat i)) [0..<length AVAILABLE_COLUMNS]"
    by (simp add: out_def map_cfg_order_assign_index len)
  have vis: "cfg_visible c" if c: "c \<in> set out" and col: "col \<in> set AVAILABLE_COLUMNS"
    and eq: "col_id col = cfg_id c" and fixed: "col_fixed col" for c col
  proof -
    from c obtain i where i: "i < length sorted" "c = (sorted ! i)\<lparr>cfg_order := Fin (of_nat i)\<rparr>"
      by (auto simp: out_def in_set_conv_nth length_assign_index nth_assign_index)
    then have "sorted ! i \<in> set entries"
      using set_js_sort [of "\<lambda>a b. js_sub (cfg_order a) (cfg_order b)" entries]
      by (metis nth_mem sorted_def)
    then obtain col' where col': "col' \<in> set AVAILABLE_COLUMNS"
      "sorted ! i = normalized_entry m col'"
      by (auto simp: entries_def)
    from i(2) col'(2) eq have "col_id col = col_id col'"
      by (simp add: cfg_id_normalized_entry)
    with col col' distinct_AVAILABLE_COLUMNS have "col' = col"
      by (metis distinct_map inj_onD)
    with fixed col'(2) i(2) show ?thesis
      by (simp add: fixed_normalized_entry)
  qed
  from res ids dist ord vis show ?thesis by blast
qed

text \<open>
  C1. For every stored configuration that is \<open>null\<close>, \<open>undefined\<close> or an array without
  \<open>null\<close> and \<open>undefined\<close> items (objects with any ids, visibilities and orders, repeated
  or missing), \<open>normalizeColumnsConfig\<close> returns a list with exactly one entry per id of
  \<open>AVAILABLE_COLUMNS\<close>, whose orders are 0, 1, ..., n-1 in sequence, and in which the
  entry of every fixed column is visible.
\<close>

theorem normalizeColumnsConfig_one_entry_per_id:
  assumes "accepted_config config"
  shows "\<exists>out. normalizeColumnsConfig config = Inr out
     \<and> mset (map cfg_id out) = mset (map col_id AVAILABLE_COLUMNS)
     \<and> distinct (map cfg_id out)
     \<and> map cfg_order out = map (\<lambda>i. Fin (of_nat i)) [0..<length AVAILABLE_COLUMNS]
     \<and> (\<forall>c \<in> set out. \<forall>col \<in> set AVAILABLE_COLUMNS.
           col_id col = cfg_id c \<and> col_fixed col \<longrightarrow> cfg_visible c)"
  using assms by (rule normalizeColumnsConfig_shape)

theorem normalizeColumnsConfig_one_entry_per_id_witness:
  "accepted_config example_config
   \<and> (\<exists>out. normalizeColumnsConfig example_config = Inr out
     \<and> mset (map cfg_id out) = mset (map col_id AVAILABLE_COLUMNS)
     \<and> distinct (map cfg_id out)
     \<and> map cfg_order out = map (\<lambda>i. Fin (of_nat i)) [0..<length AVAILABLE_COLUMNS]
     \<and> (\<forall>c \<in> set out. \<forall>col \<in> set AVAILABLE_COLUMNS.
           col_id col = cfg_id c \<and> col_fixed col \<longrightarrow> cfg_visible c))"
proof -
  have h: "accepted_config example_config"
    by (simp add: accepted_config_def example_config_def)
  from h normalizeColumnsConfig_one_entry_per_id [OF h] show ?thesis by (rule conjI)
qed

lemma config_value_alt: "config_value cs = JArr (map entry_value cs)"
  by (simp add: config_value_def entry_value_def)

lemma accepted_config_value: "accepted_config (config_value cs)"
  by (simp add: config_value_alt accepted_config_def list_all_iff entry_value_def)

lemma map_entries_values:
  "map_entries (map entry_value cs) = Inr (map (\<lambda>c. (JStr (cfg_id c), entry_value c)) cs)"
  by (induction cs) (simp_all add: entry_value_def)

lemma Map_get_values:
  assumes "distinct (map cfg_id cs)" and "c \<in> set cs"
  shows "Map_get (map (\<lambda>c. (JStr (cfg_id c), entry_value c)) cs) (JStr (cfg_id c))
         = entry_value c"
proof -
  let ?es = "map (\<lambda>c. (JStr (cfg_id c), entry_value c)) cs"
  have "map fst ?es = map (\<lambda>c. JStr (cfg_id c)) cs" by simp
  also have "\<dots> = map JStr (map cfg_id cs)" by simp
  finally have "distinct (map fst ?es)"
    using assms(1) by (simp add: distinct_map inj_on_def del: map_map)
  then have "distinct (map fst (rev ?es))"
    by (simp only: rev_map [symmetric] distinct_rev)
  moreover from assms(2) have "(JStr (cfg_id c), entry_value c) \<in> set (rev ?es)"
    by auto
  ultimately have "map_of (rev ?es) (JStr (cfg_id c)) = Some (entry_value c)"
    by (rule map_of_is_SomeI)
  then show ?thesis by (simp add: Map_get_def)
qed

lemma normalized_entry_value:
  assumes "cfg_id c = col_id col" and "col_fixed col \<longrightarrow> cfg_visible c"
    and "Map_get m (JStr (col_id col)) = entry_value c"
  shows "normalized_entry m col = c"
  using assms by (cases c) (auto simp: normalized_entry_def Let_def entry_value_def js_prop_def)


lemma insert_by_insort_key:
  assumes "\<forall>z \<in> set (x # ys). \<exists>r. cfg_order z = Fin r"
  shows "insert_by (\<lambda>a b. js_sub (cfg_order a) (cfg_order b)) x ys
         = insort_key finite_order x ys"
  using assms
proof (induction ys)
  case Nil
  show ?case by simp
next
  case (Cons y ys)
  from Cons.prems obtain rx ry where r: "cfg_order x = Fin rx" "cfg_order y = Fin ry"
    by auto
  from Cons.prems have "\<forall>z \<in> set (x # ys). \<exists>r. cfg_order z = Fin r" by simp
  then have IH: "insert_by (\<lambda>a b. js_sub (cfg_order a) (cfg_order b)) x ys
         = insort_key finite_order x ys" by (rule Cons.IH)
  have k: "finite_order x = rx" "finite_order y = ry"
    by (simp_all add: finite_order_def r)
  show ?case
    by (auto simp: r IH k)
qed

lemma js_sort_sort_key:
  assumes "\<forall>z \<in> set xs. \<exists>r. cfg_order z = Fin r"
  shows "js_sort (\<lambda>a b. js_sub (cfg_order a) (cfg_order b)) xs = sort_key finite_order xs"
  using assms
proof (induction xs)
  case Nil
  show ?case by (simp add: js_sort_def)
next
  case (Cons x xs)
  then have IH: "js_sort (\<lambda>a b. js_sub (cfg_order a) (cfg_order b)) xs
      = sort_key finite_order xs" by simp
  have "\<forall>z \<in> set (x # sort_key finite_order xs). \<exists>r. cfg_order z = Fin r"
    using Cons.prems by simp
  then have "insert_by (\<lambda>a b. js_sub (cfg_order a) (cfg_order b)) x (sort_key finite_order xs)
      = insort_key finite_order x (sort_key finite_order xs)"
    by (rule insert_by_insort_key)
  with IH show ?case
    by (simp add: js_sort_def sort_key_def)
qed

lemma filter_same_key:
  "distinct (map f xs) \<Longrightarrow> k \<in> set xs \<Longrightarrow> filter (\<lambda>x. f k = f x) xs = [k]"
proof (induction xs)
  case Nil
  then show ?case by simp
next
  case (Cons x xs)
  show ?case
  proof (cases "k = x")
    case True
    with Cons.prems have "\<forall>z \<in> set xs. f x \<noteq> f z" by auto
    then have "filter (\<lambda>z. f x = f z) xs = []" by (simp add: filter_empty_conv)
    with True show ?thesis by simp
  next
    case False
    with Cons.prems have k: "k \<in> set xs" by simp
    from Cons.prems(1) have "f x \<notin> f ` set xs" by simp
    with k have "f k \<noteq> f x" by (metis imageI)
    with Cons.IH Cons.prems k show ?thesis by simp
  qed
qed

lemma sort_key_unique:
  assumes "mset ys = mset xs" and "distinct (map f ys)" and "sorted (map f ys)"
  shows "sort_key f xs = ys"
proof (rule properties_for_sort_key [OF assms(1) _ assms(3)])
  fix k assume k: "k \<in> set ys"
  from assms(1) have "mset (map f xs) = mset (map f ys)" by (metis mset_map)
  with assms(2) have dx: "distinct (map f xs)" by (metis mset_eq_imp_distinct_iff)
  from k assms(1) have kx: "k \<in> set xs" by (metis mset_eq_setD)
  show "filter (\<lambda>x. f k = f x) ys = filter (\<lambda>x. f k = f x) xs"
    by (simp add: filter_same_key [OF assms(2) k] filter_same_key [OF dx kx])
qed

lemma assign_index_fixpoint:
  assumes "map cfg_order ys = map (\<lambda>i. Fin (of_nat i)) [0..<length ys]"
  shows "assign_index ys = ys"
proof (rule nth_equalityI)
  show "length (assign_index ys) = length ys" by (rule length_assign_index)
next
  fix i assume "i < length (assign_index ys)"
  then have i: "i < length ys" by (simp add: length_assign_index)
  then have "cfg_order (ys ! i) = map cfg_order ys ! i" by simp
  also have "\<dots> = Fin (of_nat i)" using i by (simp add: assms)
  finally show "assign_index ys ! i = ys ! i"
    using i by (simp add: nth_assign_index)
qed

lemma normalizeColumnsConfig_fixpoint:
  assumes ids: "mset (map cfg_id ys) = mset (map col_id AVAILABLE_COLUMNS)"
    and ord: "map cfg_order ys = map (\<lambda>i. Fin (of_nat i)) [0..<length ys]"
    and vis: "\<forall>c \<in> set ys. \<forall>col \<in> set AVAILABLE_COLUMNS.
           col_id col = cfg_id c \<and> col_fixed col \<longrightarrow> cfg_visible c"
  shows "normalizeColumnsConfig (config_value ys) = Inr ys"
proof -
  let ?m = "map (\<lambda>c. (JStr (cfg_id c), entry_value c)) ys"
  let ?cmp = "\<lambda>a b. js_sub (cfg_order a) (cfg_order b)"
  define entries where "entries = map (normalized_entry ?m) AVAILABLE_COLUMNS"
  from ids distinct_AVAILABLE_COLUMNS have dist: "distinct (map cfg_id ys)"
    by (metis mset_eq_imp_distinct_iff)
  have len: "length ys = length AVAILABLE_COLUMNS"
    using ids by (metis length_map size_mset)
  have entry: "normalized_entry ?m col \<in> set ys \<and> cfg_id (normalized_entry ?m col) = col_id col"
    if col: "col \<in> set AVAILABLE_COLUMNS" for col
  proof -
    from col have "col_id col \<in> set (map col_id AVAILABLE_COLUMNS)" by simp
    with ids have "col_id col \<in> set (map cfg_id ys)" by (metis mset_eq_setD)
    then obtain c where c: "c \<in> set ys" "cfg_id c = col_id col" by auto
    from dist c(1) have "Map_get ?m (JStr (cfg_id c)) = entry_value c"
      by (rule Map_get_values)
    with c(2) have get: "Map_get ?m (JStr (col_id col)) = entry_value c" by simp
    from vis c col have "col_fixed col \<longrightarrow> cfg_visible c" by auto
    with c(2) get have "normalized_entry ?m col = c"
      by (intro normalized_entry_value) simp_all
    with c show ?thesis by simp
  qed
  have sub: "set entries \<subseteq> set ys"
    using entry by (auto simp: entries_def)
  have ids_entries: "map cfg_id entries = map col_id AVAILABLE_COLUMNS"
    using entry by (simp add: entries_def)
  with distinct_AVAILABLE_COLUMNS have "distinct (map cfg_id entries)" by simp
  then have dist_entries: "distinct entries" by (simp add: distinct_map)
  from dist have dist_ys: "distinct ys" by (simp add: distinct_map)
  have "length entries = length ys"
    by (simp add: entries_def len)
  then have "card (set entries) = card (set ys)"
    using dist_entries dist_ys by (simp only: distinct_card)
  with sub have "set entries = set ys"
    by (intro card_subset_eq) simp_all
  with dist_entries dist_ys have perm: "mset ys = mset entries"
    by (simp add: set_eq_iff_mset_eq_distinct)
  have fin: "\<forall>z \<in> set ys. \<exists>r. cfg_order z = Fin r"
  proof
    fix z assume "z \<in> set ys"
    then obtain i where i: "i < length ys" "z = ys ! i" by (auto simp: in_set_conv_nth)
    then have "cfg_order z = map cfg_order ys ! i" by simp
    also have "\<dots> = Fin (of_nat i)" using i(1) by (simp add: ord)
    finally show "\<exists>r. cfg_order z = Fin r" by blast
  qed
  have keys: "map finite_order ys = map of_nat [0..<length ys]"
  proof (rule nth_equalityI)
    show "length (map finite_order ys) = length (map of_nat [0..<length ys])" by simp
  next
    fix i assume "i < length (map finite_order ys)"
    then have i: "i < length ys" by simp
    then have "cfg_order (ys ! i) = map cfg_order ys ! i" by simp
    also have "\<dots> = Fin (of_nat i)" using i by (simp add: ord)
    finally show "map finite_order ys ! i = map of_nat [0..<length ys] ! i"
      using i by (simp add: finite_order_def)
  qed
  have sorted_keys: "sorted (map finite_order ys)"
    unfolding keys by (simp add: sorted_map sorted_wrt_iff_nth_less)
  have distinct_keys: "distinct (map finite_order ys)"
    unfolding keys by (simp add: distinct_map inj_on_def)
  from fin \<open>set entries = set ys\<close> have "js_sort ?cmp entries = sort_key finite_order entries"
    by (intro js_sort_sort_key) simp
  also have "\<dots> = ys"
    using perm distinct_keys sorted_keys by (rule sort_key_unique)
  finally have sorted: "js_sort ?cmp entries = ys" .
  have "normalizeColumnsConfig (config_value ys) = Inr (assign_index (js_sort ?cmp entries))"
    by (simp add: normalizeColumnsConfig_def config_value_alt config_items_def
        map_entries_values entries_def)
  with sorted assign_index_fixpoint [OF ord] show ?thesis by simp
qed

lemma normalizeColumnsConfig_twice:
  assumes "normalizeColumnsConfig x = Inr y"
  shows "normalizeColumnsConfig (config_value y) = Inr y"
proof -
  have acc: "accepted_config x"
  proof (rule ccontr)
    assume "\<not> accepted_config x"
    then have "normalizeColumnsConfig x = Inl TypeError"
      by (rule normalizeColumnsConfig_throws)
    with assms show False by simp
  qed
  from normalizeColumnsConfig_shape [OF acc] assms
  have ids: "mset (map cfg_id y) = mset (map col_id AVAILABLE_COLUMNS)"
    and ord: "map cfg_order y = map (\<lambda>i. Fin (of_nat i)) [0..<length AVAILABLE_COLUMNS]"
    and vis: "\<forall>c \<in> set y. \<forall>col \<in> set AVAILABLE_COLUMNS.
           col_id col = cfg_id c \<and> col_fixed col \<longrightarrow> cfg_visible c"
    by auto
  from ids have "length y = length AVAILABLE_COLUMNS"
    by (metis length_map size_mset)
  with ord have ord': "map cfg_order y = map (\<lambda>i. Fin (of_nat i)) [0..<length y]"
    by simp
  from ids ord' vis show ?thesis by (rule normalizeColumnsConfig_fixpoint)
qed

text \<open>
  C6. \<open>normalizeColumnsConfig\<close> is idempotent: normalising the result of a call gives
  that result again (and a call that throws, throws again); the normalised default
  configuration exists and is a fixed point.
\<close>

theorem normalizeColumnsConfig_idempotent:
  "(case normalizeColumnsConfig x of
      Inl e \<Rightarrow> Inl e
    | Inr y \<Rightarrow> normalizeColumnsConfig (config_value y)) = normalizeColumnsConfig x
   \<and> (\<exists>d. normalizeColumnsConfig (config_value getDefaultColumnsConfig) = Inr d
          \<and> normalizeColumnsConfig (config_value d) = Inr d)"
proof
  show "(case normalizeColumnsConfig x of
      Inl e \<Rightarrow> Inl e
    | Inr y \<Rightarrow> normalizeColumnsConfig (config_value y)) = normalizeColumnsConfig x"
  proof (cases "normalizeColumnsConfig x")
    case (Inl e)
    then show ?thesis by simp
  next
    case (Inr y)
    with normalizeColumnsConfig_twice [OF Inr] show ?thesis by simp
  qed
next
  from normalizeColumnsConfig_shape [OF accepted_config_value]
  obtain d where d: "normalizeColumnsConfig (config_value getDefaultColumnsConfig) = Inr d"
    by blast
  from d normalizeColumnsConfig_twice [OF d]
  show "\<exists>d. normalizeColumnsConfig (config_value getDefaultColumnsConfig) = Inr d
          \<and> normalizeColumnsConfig (config_value d) = Inr d"
    by blast
qed

lemma normalizeColumnsConfig_urf_value:
  "normalizeColumnsConfig urf_config = Inr [
      \<lparr>cfg_id = ''acoes'', cfg_visible = True, cfg_order = Fin 0\<rparr>,
      \<lparr>cfg_id = ''urf'', cfg_visible = False, cfg_order = Fin 1\<rparr>,
      \<lparr>cfg_id = ''ref_importador'', cfg_visible = True, cfg_order = Fin 2\<rparr>,
      \<lparr>cfg_id = ''importador'', cfg_visible = True, cfg_order = Fin 3\<rparr>,
      \<lparr>cfg_id = ''data_abertura'', cfg_visible = True, cfg_order = Fin 4\<rparr>,
      \<lparr>cfg_id = ''exportador'', cfg_visible = True, cfg_order = Fin 5\<rparr>,
      \<lparr>cfg_id = ''modal'', cfg_visible = True, cfg_order = Fin 6\<rparr>,
      \<lparr>cfg_id = ''status'', cfg_visible = True, cfg_order = Fin 7\<rparr>,
      \<lparr>cfg_id = ''custos'', cfg_visible = True, cfg_order = Fin 8\<rparr>,
      \<lparr>cfg_id = ''data_chegada'', cfg_visible = True, cfg_order = Fin 9\<rparr>,
      \<lparr>cfg_id = ''presenca_carga'', cfg_visible = False, cfg_order = Fin 10\<rparr>,
      \<lparr>cfg_id = ''data_embarque'', cfg_visible = False, cfg_order = Fin 11\<rparr>,
      \<lparr>cfg_id = ''transit_time'', cfg_visible = False, cfg_order = Fin 12\<rparr>,
      \<lparr>cfg_id = ''data_registro'', cfg_visible = False, cfg_order = Fin 13\<rparr>,
      \<lparr>cfg_id = ''mercadoria'', cfg_visible = True, cfg_order = Fin 14\<rparr>,
      \<lparr>cfg_id = ''container'', cfg_visible = False, cfg_order = Fin 15\<rparr>,
      \<lparr>cfg_id = ''peso_bruto'', cfg_visible = False, cfg_order = Fin 16\<rparr>,
      \<lparr>cfg_id = ''numero_di'', cfg_visible = False, cfg_order = Fin 17\<rparr>,
      \<lparr>cfg_id = ''canal'', cfg_visible = False, cfg_order = Fin 18\<rparr>,
      \<lparr>cfg_id = ''pais'', cfg_visible = False, cfg_order = Fin 19\<rparr>,
      \<lparr>cfg_id = ''produtos'', cfg_visible = False, cfg_order = Fin 20\<rparr>,
      \<lparr>cfg_id = ''despesas'', cfg_visible = False, cfg_order = Fin 21\<rparr>,
      \<lparr>cfg_id = ''data_desova'', cfg_visible = False, cfg_order = Fin 22\<rparr>,
      \<lparr>cfg_id = ''limite_primeiro_periodo'', cfg_visible = False, cfg_order = Fin 23\<rparr>,
      \<lparr>cfg_id = ''limite_segundo_periodo'', cfg_visible = False, cfg_order = Fin 24\<rparr>,
      \<lparr>cfg_id = ''dias_extras_armazenagem'', cfg_visible = False, cfg_order = Fin 25\<rparr>,
      \<lparr>cfg_id = ''valor_despesas_extras'', cfg_visible = False, cfg_order = Fin 26\<rparr>,
      \<lparr>cfg_id = ''po_cliente'', cfg_visible = False, cfg_order = Fin 27\<rparr>,
      \<lparr>cfg_id = ''referencia_exportador'', cfg_visible = False, cfg_order = Fin 28\<rparr>,
      \<lparr>cfg_id = ''codigo_produto'', cfg_visible = False, cfg_order = Fin 29\<rparr>,
      \<lparr>cfg_id = ''filial_codigo'', cfg_visible = False, cfg_order = Fin 30\<rparr>,
      \<lparr>cfg_id = ''licenca_importacao'', cfg_visible = False, cfg_order = Fin 31\<rparr>,
      \<lparr>cfg_id = ''freetime'', cfg_visible = False, cfg_order = Fin 32\<rparr>,
      \<lparr>cfg_id = ''etb'', cfg_visible = False, cfg_order = Fin 33\<rparr>,
      \<lparr>cfg_id = ''navio'', cfg_visible = False, cfg_order = Fin 34\<rparr>,
      \<lparr>cfg_id = ''armador_agente_trade'', cfg_visible = False, cfg_order = Fin 35\<rparr>,
      \<lparr>cfg_id = ''moeda'', cfg_visible = False, cfg_order = Fin 36\<rparr>,
      \<lparr>cfg_id = ''total_pedido_moeda_origem'', cfg_visible = False, cfg_order = Fin 37\<rparr>,
      \<lparr>cfg_id = ''ptax'', cfg_visible = False, cfg_order = Fin 38\<rparr>,
      \<lparr>cfg_id = ''incoterm'', cfg_visible = False, cfg_order = Fin 39\<rparr>]"
  by code_simp

text \<open>
  C7, as the code has it. Normalising \<open>[{id: 'urf', visible: false, order: 0}]\<close> gives
  every registry column once, the others with their default visibility and in the order
  of their registry \<open>order\<close> values; \<open>urf\<close> is invisible and ties on order 0 with the
  fixed column \<open>acoes\<close>, which precedes it in the registry, so the stable sort puts
  \<open>urf\<close> at position 1 (order 1), right behind \<open>acoes\<close> (order 0).
\<close>

theorem normalize_urf_config:
  "normalizeColumnsConfig urf_config = Inr [
      \<lparr>cfg_id = ''acoes'', cfg_visible = True, cfg_order = Fin 0\<rparr>,
      \<lparr>cfg_id = ''urf'', cfg_visible = False, cfg_order = Fin 1\<rparr>,
      \<lparr>cfg_id = ''ref_importador'', cfg_visible = True, cfg_order = Fin 2\<rparr>,
      \<lparr>cfg_id = ''importador'', cfg_visible = True, cfg_order = Fin 3\<rparr>,
      \<lparr>cfg_id = ''data_abertura'', cfg_visible = True, cfg_order = Fin 4\<rparr>,
      \<lparr>cfg_id = ''exportador'', cfg_visible = True, cfg_order = Fin 5\<rparr>,
      \<lparr>cfg_id = ''modal'', cfg_visible = True, cfg_order = Fin 6\<rparr>,
      \<lparr>cfg_id = ''status'', cfg_visible = True, cfg_order = Fin 7\<rparr>,
      \<lparr>cfg_id = ''custos'', cfg_visible = True, cfg_order = Fin 8\<rparr>,
      \<lparr>cfg_id = ''data_chegada'', cfg_visible = True, cfg_order = Fin 9\<rparr>,
      \<lparr>cfg_id = ''presenca_carga'', cfg_visible = False, cfg_order = Fin 10\<rparr>,
      \<lparr>cfg_id = ''data_embarque'', cfg_visible = False, cfg_order = Fin 11\<rparr>,
      \<lparr>cfg_id = ''transit_time'', cfg_visible = False, cfg_order = Fin 12\<rparr>,
      \<lparr>cfg_id = ''data_registro'', cfg_visible = False, cfg_order = Fin 13\<rparr>,
      \<lparr>cfg_id = ''mercadoria'', cfg_visible = True, cfg_order = Fin 14\<rparr>,
      \<lparr>cfg_id = ''container'', cfg_visible = False, cfg_order = Fin 15\<rparr>,
      \<lparr>cfg_id = ''peso_bruto'', cfg_visible = False, cfg_order = Fin 16\<rparr>,
      \<lparr>cfg_id = ''numero_di'', cfg_visible = False, cfg_order = Fin 17\<rparr>,
      \<lparr>cfg_id = ''canal'', cfg_visible = False, cfg_order = Fin 18\<rparr>,
      \<lparr>cfg_id = ''pais'', cfg_visible = False, cfg_order = Fin 19\<rparr>,
      \<lparr>cfg_id = ''produtos'', cfg_visible = False, cfg_order = Fin 20\<rparr>,
      \<lparr>cfg_id = ''despesas'', cfg_visible = False, cfg_order = Fin 21\<rparr>,
      \<lparr>cfg_id = ''data_desova'', cfg_visible = False, cfg_order = Fin 22\<rparr>,
      \<lparr>cfg_id = ''limite_primeiro_periodo'', cfg_visible = False, cfg_order = Fin 23\<rparr>,
      \<lparr>cfg_id = ''limite_segundo_periodo'', cfg_visible = False, cfg_order = Fin 24\<rparr>,
      \<lparr>cfg_id = ''dias_extras_armazenagem'', cfg_visible = False, cfg_order = Fin 25\<rparr>,
      \<lparr>cfg_id = ''valor_despesas_extras'', cfg_visible = False, cfg_order = Fin 26\<rparr>,
      \<lparr>cfg_id = ''po_cliente'', cfg_visible = False, cfg_order = Fin 27\<rparr>,
      \<lparr>cfg_id = ''referencia_exportador'', cfg_visible = False, cfg_order = Fin 28\<rparr>,
      \<lparr>cfg_id = ''codigo_produto'', cfg_visible = False, cfg_order = Fin 29\<rparr>,
      \<lparr>cfg_id = ''filial_codigo'', cfg_visible = False, cfg_order = Fin 30\<rparr>,
      \<lparr>cfg_id = ''licenca_importacao'', cfg_visible = False, cfg_order = Fin 31\<rparr>,
      \<lparr>cfg_id = ''freetime'', cfg_visible = False, cfg_order = Fin 32\<rparr>,
      \<lparr>cfg_id = ''etb'', cfg_visible = False, cfg_order = Fin 33\<rparr>,
      \<lparr>cfg_id = ''navio'', cfg_visible = False, cfg_order = Fin 34\<rparr>,
      \<lparr>cfg_id = ''armador_agente_trade'', cfg_visible = False, cfg_order = Fin 35\<rparr>,
      \<lparr>cfg_id = ''moeda'', cfg_visible = False, cfg_order = Fin 36\<rparr>,
      \<lparr>cfg_id = ''total_pedido_moeda_origem'', cfg_visible = False, cfg_order = Fin 37\<rparr>,
      \<lparr>cfg_id = ''ptax'', cfg_visible = False, cfg_order = Fin 38\<rparr>,
      \<lparr>cfg_id = ''incoterm'', cfg_visible = False, cfg_order = Fin 39\<rparr>]"
  by (rule normalizeColumnsConfig_urf_value)

text \<open>C7 as stated, with \<open>urf\<close> at position 0 and order 0, does not hold.\<close>

theorem urf_first_counterexample:
  "\<not> (\<exists>out. normalizeColumnsConfig urf_config = Inr out
         \<and> out ! 0 = \<lparr>cfg_id = ''urf'', cfg_visible = False, cfg_order = Fin 0\<rparr>)"
  by (simp add: normalizeColumnsConfig_urf_value)

section \<open>Properties of the request de-duplication and the retry loaders\<close>



























text \<open>
  A call into the page that throws inside the \<open>try\<close> block is a failed attempt like any
  other. Here the table throws on the operations of an accepted body: the loader waits and
  requests again, and in the \<open>catch\<close> block of the last attempt finds these operations in
  the cache, hands them to the table once more and rejects with its error.
\<close>

lemma page_throw_is_a_failed_attempt:
  "fst (loadRecentOperationsWithRetry env_table_throws 2 dashboard_initial) = Some TypeError
   \<and> ui (snd (loadRecentOperationsWithRetry env_table_throws 2 dashboard_initial))
       = [UpdateRecentOperationsTable (JObj []), UpdateRecentOperationsTable (JObj []),
          UpdateRecentOperationsTable (JObj [])]
   \<and> waits (snd (loadRecentOperationsWithRetry env_table_throws 2 dashboard_initial)) = [1000]
   \<and> map fst (requests (net (snd (loadRecentOperationsWithRetry env_table_throws 2
                                     dashboard_initial))))
       = [''operations'', ''operations'']"
  by code_simp

text \<open>
  C3 does not hold of the code. The \<open>catch\<close> blocks of the loaders treat the AbortError of
  a superseded request like any other failure. In this run the first request of the charts
  loader (controller 0) is superseded by a newer request for \<open>charts\<close> (controller 1) and
  rejects with an AbortError; the loader waits 1000 ms and requests again (controller 2),
  which aborts the newer request, and then shows the charts of its own second request.
  With a budget of one attempt the cancellation sets off the fallback: the empty charts
  are shown and the loader rejects with the AbortError.
\<close>

theorem superseded_loader_retries_and_aborts_newer_request:
  "fst (loadDashboardChartsWithRetry env_superseded 2 dashboard_initial) = None
   \<and> requests (net (snd (loadDashboardChartsWithRetry env_superseded 2 dashboard_initial)))
       = [(''charts'', Some 0), (''charts'', Some 1), (''charts'', Some 2)]
   \<and> controllers (net (snd (loadDashboardChartsWithRetry env_superseded 2 dashboard_initial)))
       = [True, True, False]
   \<and> waits (snd (loadDashboardChartsWithRetry env_superseded 2 dashboard_initial)) = [1000]
   \<and> ui (snd (loadDashboardChartsWithRetry env_superseded 2 dashboard_initial))
       = [CreateDashboardChartsWithValidation (JObj [(''monthly'', JObj [])])]
   \<and> fst (loadDashboardChartsWithRetry env_superseded 1 dashboard_initial) = Some AbortError
   \<and> ui (snd (loadDashboardChartsWithRetry env_superseded 1 dashboard_initial))
       = [CreateEmptyCharts]"
  by code_simp

section \<open>Properties of the row rendering\<close>

lemma js_bind_simps: "js_bind (Inr x) f = f x" "js_bind (Inl e) f = Inl e"
  by (simp_all add: js_bind_def)

lemma template_simps:
  "template [] = Inr []"
  "template (Inr s # parts) = js_bind (template parts) (\<lambda>t. Inr (s @ t))"
  "template (Inl e # parts) = Inl e"
  by (simp_all add: template_def js_bind_def split: sum.splits)

lemma absent_simps:
  assumes "absent v"
  shows "\<not> truthy v" "\<not> is_array v" "array_items v = []" "js_or v x = x" "\<not> is_object v"
    "formatDate P v = Inr ''-''" "or_dash P v = js_String P (JStr ''-'')"
    "formatDataChegada P v = Inr ''-''"
    "v \<noteq> JStr s" "getModalBadge P v = Inr ''<span class=\"badge badge-secondary\">-</span>''"
  using assms
  by (auto simp: absent_def js_or_def formatDate_def or_dash_def formatDataChegada_def
      getModalBadge_def)

lemma optional_absent_prop:
  assumes "optional_absent operation" and "f \<notin> set derived_fields"
  shows "absent (js_prop operation f)"
proof -
  from assms(1) obtain kvs where o: "operation = JObj kvs"
    and kvs: "list_all (\<lambda>(k, v). k \<in> set derived_fields \<or> absent v) kvs"
    by (cases operation) (auto simp: optional_absent_def)
  show ?thesis
  proof (cases "map_of kvs f")
    case None
    with o show ?thesis by (simp add: js_prop_def absent_def)
  next
    case (Some v)
    then have "(f, v) \<in> set kvs" by (rule map_of_SomeD)
    with kvs assms(2) have "absent v" by (auto simp: list_all_iff)
    with o Some show ?thesis by (simp add: js_prop_def)
  qed
qed

lemma optional_absent_get:
  "optional_absent operation \<Longrightarrow> js_get operation f = Inr (js_prop operation f)"
  by (cases operation) (auto simp: optional_absent_def js_prop_def)

lemma optional_absent_truthy: "optional_absent operation \<Longrightarrow> truthy operation"
  by (cases operation) (auto simp: optional_absent_def)

lemma optional_absent_summary:
  "optional_absent operation \<Longrightarrow>
   absent (js_prop operation ''__produtos_summary'')
   \<or> js_prop operation ''__produtos_summary'' = no_produtos"
  by (cases operation) (auto simp: optional_absent_def absent_def)

lemma optional_absent_container:
  "optional_absent operation \<Longrightarrow>
   absent (js_prop operation ''__container_values'')
   \<or> js_prop operation ''__container_values'' = JArr []"
  by (cases operation) (auto simp: optional_absent_def absent_def)

lemma map_of_update_other:
  "f \<noteq> key \<Longrightarrow>
   map_of (map (\<lambda>(k, x). if k = key then (k, v) else (k, x)) kvs) f = map_of kvs f"
  by (induction kvs) auto

lemma js_prop_js_set_other: "f \<noteq> key \<Longrightarrow> js_prop (js_set obj key v) f = js_prop obj f"
  by (cases obj) (auto simp: js_prop_def map_of_update_other map_add_def map_of_append
      split: option.splits)

lemma findIndex_ref_total:
  "list_all (\<lambda>item. item \<noteq> JNull \<and> item \<noteq> JUndefined) items \<Longrightarrow>
   \<exists>i. findIndex_ref r k items = Inr i"
proof (induction items arbitrary: k)
  case Nil
  show ?case by simp
next
  case (Cons item items)
  then have "item \<noteq> JNull" "item \<noteq> JUndefined" by simp_all
  then obtain v where "js_get item ''ref_importador'' = Inr v" by (cases item) auto
  moreover from Cons obtain i where "findIndex_ref r (k + 1) items = Inr i" by fastforce
  ultimately show ?case by simp
qed

lemma escapeHtml_dash: "escapeHtml P (JStr ''-'') = Inr ''-''"
  by (simp add: escapeHtml_def replaceAll_def js_bind_simps)

lemma getCanalIndicator_dash:
  "getCanalIndicator P (JStr ''-'') =
     Inr ''<span class=\"canal-indicator\"><span class=\"canal-dot neutro\"></span><span class=\"canal-text\">-</span></span>''"
  by (simp add: getCanalIndicator_def js_trim_def is_space_def toUpperCase_def upper_char_def
      escapeHtml_dash js_bind_simps template_simps Let_def)

lemma summarizeProdutos_absent:
  "absent (js_prop operation ''produtos_processo'') \<Longrightarrow>
   summarizeProdutos P operation n = Inr no_produtos"
  by (simp add: summarizeProdutos_def absent_simps)

lemma summarizeDespesas_absent:
  "absent (js_prop operation ''despesas_processo'') \<Longrightarrow>
   summarizeDespesas P JNull operation n = Inr (JObj [(''text'', JStr ''-'')])"
  by (simp add: summarizeDespesas_def absent_simps Let_def)

lemma hasArmazenagemDetails_absent:
  "absent (js_prop operation ''has_armazenagem_data'') \<Longrightarrow>
   absent (js_prop operation ''armazenagem_data'') \<Longrightarrow>
   hasArmazenagemDetails P operation = Inr False"
  by (simp add: hasArmazenagemDetails_def absent_simps Let_def)

lemma derived_fields_simps:
  "f \<notin> set derived_fields \<longleftrightarrow>
     f \<noteq> ''__container_values'' \<and> f \<noteq> ''__container_sort'' \<and> f \<noteq> ''__produtos_summary''
     \<and> f \<noteq> ''__produtos_entries'' \<and> f \<noteq> ''__produtos_tooltip''"
  by (auto simp: derived_fields_def)

lemma prepare_absent:
  assumes a: "optional_absent operation" and r: "operations_readable w"
  shows "\<exists>i. prepare P w operation = Inr (absent_prepared P i)"
proof -
  have abs: "absent (js_prop operation f)" if "f \<notin> set derived_fields" for f
    using a that by (rule optional_absent_prop)
  note S = abs [THEN absent_simps(1)] abs [THEN absent_simps(2)] abs [THEN absent_simps(3)]
    abs [THEN absent_simps(4)]
  from r obtain g where g: "findIndex_ref (js_prop operation ''ref_importador'') 0
      (array_items (currentOperations w)) = Inr g"
    using findIndex_ref_total [of "array_items (currentOperations w)"]
    by (auto simp: operations_readable_def)
  have up: "toUpperCase [] = []" by (simp add: toUpperCase_def)
  have summary: "(if truthy (js_prop operation ''__produtos_summary'')
      then Inr (js_prop operation ''__produtos_summary'')
      else summarizeProdutos P operation 3) = Inr no_produtos"
    using optional_absent_summary [OF a] summarizeProdutos_absent [OF abs, of P 3]
    by (auto simp: absent_simps derived_fields_simps no_produtos_def)
  have ha: "hasArmazenagemDetails P operation = Inr False"
    by (rule hasArmazenagemDetails_absent; rule abs) (simp_all add: derived_fields_simps)
  have sd: "summarizeDespesas P JNull operation 3 = Inr (JObj [(''text'', JStr ''-'')])"
    by (rule summarizeDespesas_absent; rule abs) (simp_all add: derived_fields_simps)
  show ?thesis
  proof (cases "is_array (currentOperations w)")
    case True
    with g show ?thesis
      by (intro exI [of _ "if - 1 < g then g else indexOfOperation w"])
        (simp add: prepare_def optional_absent_get [OF a] S derived_fields_simps up ha sd
          summary getCanalIndicator_dash absent_prepared_def js_bind_simps Let_def)
  next
    case False
    then show ?thesis
      by (intro exI [of _ "- 1"])
        (simp add: prepare_def optional_absent_get [OF a] S derived_fields_simps up ha sd
          summary getCanalIndicator_dash absent_prepared_def js_bind_simps Let_def)
  qed
qed

lemma getStatusBadge_sem_info:
  "getStatusBadge P (JStr ''Sem Info'') =
     Inr ''<span class=\"badge badge-light-monochrome\">Sem Info</span>''"
  by (simp add: getStatusBadge_def js_trim_def is_space_def toUpperCase_def upper_char_def
      template_simps js_bind_simps Let_def)

lemma getArmazenagemDisplay_absent:
  "absent (js_prop operation ''armazenagem_data'') \<Longrightarrow>
   getArmazenagemDisplay P operation field = Inr ''-''"
  by (simp add: getArmazenagemDisplay_def absent_simps Let_def)

lemma extractContainerValues_absent:
  assumes "absent (js_prop operation ''container'')"
    "absent (js_prop operation ''numero_container'')"
    "absent (js_prop operation ''conteiner'')" "absent (js_prop operation ''conteineres'')"
  shows "extractContainerValues P operation = Inr []"
  using assms(4)
  by (auto simp: extractContainerValues_def absent_simps [OF assms(1)] absent_simps [OF assms(2)]
      absent_simps [OF assms(3)] absent_def Let_def)

lemma createChipListMarkup_empty: "createChipListMarkup P (JArr []) n = Inr None"
  by (simp add: createChipListMarkup_def)

lemma normalizePesoBruto_absent: "absent v \<Longrightarrow> normalizePesoBruto P v = Inr (Fin 0)"
  by (simp add: normalizePesoBruto_def absent_simps)

lemma formatCurrency_zero: "formatCurrency P (JNum (Fin 0)) = Inr ''R$ 0,00''"
  by (simp add: formatCurrency_def)

lemma js_prop_JObj:
  "js_prop (JObj kvs) f = (case map_of kvs f of None \<Rightarrow> JUndefined | Some v \<Rightarrow> v)"
  by (simp add: js_prop_def)

lemma js_or_truthy: "truthy a \<Longrightarrow> js_or a b = a"
  by (simp add: js_or_def)

lemma container_cell_absent:
  assumes H: "\<And>f. f \<notin> set derived_fields \<Longrightarrow> absent (js_prop operation f)"
    and C: "absent (js_prop operation ''__container_values'')
            \<or> js_prop operation ''__container_values'' = JArr []"
  shows "js_bind (if is_array (js_prop operation ''__container_values'')
                  then Inr (js_prop operation ''__container_values'')
                  else js_bind (extractContainerValues P operation)
                         (\<lambda>texts. Inr (JArr (map JStr texts))))
           (\<lambda>containerValues. createChipListMarkup P containerValues 6) = Inr None"
proof -
  have e: "extractContainerValues P operation = Inr []"
    by (rule extractContainerValues_absent; rule H) (simp_all add: derived_fields_simps)
  from C show ?thesis
    by (auto simp: absent_simps e js_bind_simps createChipListMarkup_empty)
qed

lemma renderCell_absent_placeholder:
  assumes H: "\<And>f. f \<notin> set derived_fields \<Longrightarrow> absent (js_prop operation f)"
    and C: "absent (js_prop operation ''__container_values'')
            \<or> js_prop operation ''__container_values'' = JArr []"
    and c: "c \<noteq> ''acoes''" "c \<noteq> ''status''" "c \<noteq> ''custos''"
  shows "\<exists>cell. renderCell P w (absent_prepared P i) operation c = Inr cell
           \<and> text_content False cell = ''-''"
proof (cases "c = ''container''")
  case True
  have e: "extractContainerValues P operation = Inr []"
    by (rule extractContainerValues_absent; rule H) (simp_all add: derived_fields_simps)
  from C True show ?thesis
    by (auto simp: renderCell_def absent_simps e js_bind_simps createChipListMarkup_empty)
next
  case False
  have A: "absent (js_prop operation f)" if "f \<notin> set derived_fields" for f
    using that by (rule H)
  note S = absent_simps [OF A] getArmazenagemDisplay_absent [OF A]
    normalizePesoBruto_absent [OF A]
  show ?thesis
    using c False
    by (simp add: renderCell_def absent_prepared_def S derived_fields_simps escapeHtml_dash
        createChipListMarkup_empty js_prop_JObj js_or_truthy no_produtos_def
        js_bind_simps template_simps Let_def)
qed

lemma renderCell_absent_status:
  "\<exists>cell. renderCell P w (absent_prepared P i) operation ''status'' = Inr cell
     \<and> text_content False cell = ''Sem Info''"
  by (simp add: renderCell_def absent_prepared_def getStatusBadge_sem_info
      js_bind_simps template_simps)

lemma renderCell_absent_custos:
  "\<exists>cell. renderCell P w (absent_prepared P i) operation ''custos'' = Inr cell
     \<and> text_content False cell = ''R$ 0,00''"
  by (simp add: renderCell_def absent_prepared_def formatCurrency_zero
      js_bind_simps template_simps)

lemma starts_with_same_prefix: "starts_with (a @ b) (a @ c) = starts_with b c"
  by (induction a) auto

lemma renderCell_absent_acoes:
  "\<exists>cell. renderCell P w (absent_prepared P i) operation ''acoes'' = Inr cell
     \<and> starts_with (''<td>'' @ nl 28 @ ''<button class=\"table-action-btn\" '') cell"
  by (simp add: renderCell_def acoes_cell_def absent_prepared_def starts_with_same_prefix
      Let_def)

lemma renderCell_unknown:
  "c \<notin> set (map col_id AVAILABLE_COLUMNS) \<Longrightarrow>
   renderCell P w pre operation c = Inr ''<td>-</td>''"
  by (simp add: renderCell_def AVAILABLE_COLUMNS_def)

lemma memoized_prop:
  "f \<notin> {''__produtos_summary'', ''__produtos_entries'', ''__produtos_tooltip''} \<Longrightarrow>
   js_prop (memoized operation) f = js_prop operation f"
  by (simp add: memoized_def js_prop_js_set_other)

lemma memoized_absent:
  assumes "optional_absent operation" and "f \<notin> set derived_fields"
  shows "absent (js_prop (memoized operation) f)"
  using assms optional_absent_prop [of operation f]
  by (simp add: memoized_prop derived_fields_simps)

lemma memoized_container:
  assumes "optional_absent operation"
  shows "absent (js_prop (memoized operation) ''__container_values'')
         \<or> js_prop (memoized operation) ''__container_values'' = JArr []"
  using optional_absent_container [OF assms] by (simp add: memoized_prop)

lemma js_map_total:
  assumes "\<And>x. \<exists>y. f x = Inr y"
  shows "\<exists>ys. js_map f xs = Inr ys \<and> map f xs = map Inr ys"
proof (induction xs)
  case Nil
  show ?case by simp
next
  case (Cons x xs)
  from assms obtain y where "f x = Inr y" by blast
  moreover from Cons obtain ys where "js_map f xs = Inr ys" "map f xs = map Inr ys" by blast
  ultimately show ?case by simp
qed

lemma renderCell_absent:
  assumes H: "\<And>f. f \<notin> set derived_fields \<Longrightarrow> absent (js_prop operation f)"
    and C: "absent (js_prop operation ''__container_values'')
            \<or> js_prop operation ''__container_values'' = JArr []"
  shows "\<exists>cell. renderCell P w (absent_prepared P i) operation c = Inr cell
           \<and> (c \<notin> {''acoes'', ''status'', ''custos''} \<longrightarrow> text_content False cell = ''-'')
           \<and> (c = ''status'' \<longrightarrow> text_content False cell = ''Sem Info'')
           \<and> (c = ''custos'' \<longrightarrow> text_content False cell = ''R$ 0,00'')
           \<and> (c = ''acoes'' \<longrightarrow>
                 starts_with (''<td>'' @ nl 28 @ ''<button class=\"table-action-btn\" '') cell)
           \<and> (c \<notin> set (map col_id AVAILABLE_COLUMNS) \<longrightarrow> cell = ''<td>-</td>'')"
proof -
  have known: "''acoes'' \<in> set (map col_id AVAILABLE_COLUMNS)"
    "''status'' \<in> set (map col_id AVAILABLE_COLUMNS)"
    "''custos'' \<in> set (map col_id AVAILABLE_COLUMNS)"
    by (simp_all add: AVAILABLE_COLUMNS_def)
  show ?thesis
  proof (cases "c = ''acoes''")
    case True
    from renderCell_absent_acoes [of P w i operation] known(1) show ?thesis
      unfolding True by (elim exE conjE, intro exI conjI) simp_all
  next
    case acoes: False
    show ?thesis
    proof (cases "c = ''status''")
      case True
      from renderCell_absent_status [of P w i operation] known(2) show ?thesis
        unfolding True by (elim exE conjE, intro exI conjI) simp_all
    next
      case status: False
      show ?thesis
      proof (cases "c = ''custos''")
        case True
        from renderCell_absent_custos [of P w i operation] known(3) show ?thesis
          unfolding True by (elim exE conjE, intro exI conjI) simp_all
      next
        case custos: False
        from renderCell_absent_placeholder [OF H C acoes status custos, of P w i]
        obtain cell where cell: "renderCell P w (absent_prepared P i) operation c = Inr cell
          \<and> text_content False cell = ''-''" ..
        have u: "cell = ''<td>-</td>''" if "c \<notin> set (map col_id AVAILABLE_COLUMNS)"
          using renderCell_unknown [OF that, of P w "absent_prepared P i" operation] cell
          by simp
        show ?thesis
          by (rule exI [of _ cell]) (use acoes status custos cell u in simp)
      qed
    qed
  qed
qed

lemma renderRow_absent:
  assumes a: "optional_absent operation" and r: "operations_readable w"
  shows "\<exists>i. renderRow P w visibleColumns operation =
           (if visibleColumns = [] then Inr (columns_unavailable, operation)
            else js_bind (js_map (\<lambda>column. renderCell P w (absent_prepared P i)
                                           (memoized operation) (col_id column))
                            visibleColumns)
                   (\<lambda>cells. Inr (concat cells, memoized operation)))"
proof -
  from prepare_absent [OF a r, of P] obtain i
    where i: "prepare P w operation = Inr (absent_prepared P i)" ..
  show ?thesis
    by (rule exI [of _ i])
      (simp add: renderRow_def i memoized_def absent_prepared_def js_prop_JObj no_produtos_def
        js_bind_simps Let_def)
qed

lemma js_prop_js_set_same: "js_prop (js_set (JObj kvs) key v) key = v"
proof (cases "key \<in> fst ` set kvs")
  case True
  have "map_of (map (\<lambda>(k, x). if k = key then (k, v) else (k, x)) kvs) key = Some v"
    using True by (induction kvs) auto
  with True show ?thesis by (simp add: js_prop_def)
next
  case False
  then have "map_of kvs key = None" by (simp add: map_of_eq_None_iff)
  with False show ?thesis by (simp add: js_prop_def map_of_append map_add_def)
qed

lemma js_set_list_all:
  assumes "list_all Q kvs" and "Q (key, v)"
  shows "\<exists>kvs'. js_set (JObj kvs) key v = JObj kvs' \<and> list_all Q kvs'"
  using assms by (auto simp: list_all_iff)

lemma optional_absent_memoized:
  assumes a: "optional_absent operation"
  shows "optional_absent (memoized operation)"
proof (cases "truthy (js_prop operation ''__produtos_summary'')")
  case True
  with a show ?thesis by (simp add: memoized_def)
next
  case False
  let ?Q = "\<lambda>(k, v). k \<in> set derived_fields \<or> absent v"
  from a obtain kvs where o: "operation = JObj kvs" and kvs: "list_all ?Q kvs"
    by (cases operation) (simp_all add: optional_absent_def)
  have q1: "?Q (''__produtos_summary'', no_produtos)"
    and q2: "?Q (''__produtos_entries'', JArr [])"
    and q3: "?Q (''__produtos_tooltip'', JUndefined)"
    by (simp_all add: derived_fields_def)
  from js_set_list_all [of ?Q, OF kvs q1] obtain k1 where
    k1: "js_set (JObj kvs) ''__produtos_summary'' no_produtos = JObj k1" "list_all ?Q k1"
    by (elim exE conjE)
  from js_set_list_all [of ?Q, OF k1(2) q2] obtain k2 where
    k2: "js_set (JObj k1) ''__produtos_entries'' (JArr []) = JObj k2" "list_all ?Q k2"
    by (elim exE conjE)
  from js_set_list_all [of ?Q, OF k2(2) q3] obtain k3 where
    k3: "js_set (JObj k2) ''__produtos_tooltip'' JUndefined = JObj k3" "list_all ?Q k3"
    by (elim exE conjE)
  have m: "memoized operation = JObj k3"
    using False by (simp add: memoized_def o k1(1) k2(1) k3(1) del: js_set.simps)
  have "js_prop (JObj k3) ''__produtos_summary'' = js_prop (JObj k1) ''__produtos_summary''"
    unfolding k3(1) [symmetric] k2(1) [symmetric]
    by (simp add: js_prop_js_set_other del: js_set.simps)
  also have "\<dots> = no_produtos"
    unfolding k1(1) [symmetric] by (rule js_prop_js_set_same)
  finally have s: "js_prop (JObj k3) ''__produtos_summary'' = no_produtos" .
  have c: "js_prop (JObj k3) ''__container_values'' = js_prop operation ''__container_values''"
    unfolding m [symmetric] by (rule memoized_prop) simp
  from a have "js_prop operation ''__container_values'' \<in> set [JUndefined, JNull, JArr []]"
    by (simp add: optional_absent_def o)
  with c have c': "js_prop (JObj k3) ''__container_values'' \<in> set [JUndefined, JNull, JArr []]"
    by simp
  show ?thesis
    unfolding m optional_absent_def using k3(2) s c' by simp
qed

text \<open>
  C9, as far as it holds. Let every optional field of the operation be absent, the
  derived fields being absent as well or holding what the code derives from such a record,
  and let \<open>window.currentOperations\<close> be no array or an array without \<open>null\<close> and
  \<open>undefined\<close>. Then \<open>renderRow\<close> does not throw, whatever the list of visible columns.
  For the empty list it returns the one cell that says that the configuration of the
  columns is unavailable. For any other list the row is the cells of the columns in their
  order, rendered from the record with the summary of no products stored on it, which is
  again a record of this kind. The text of every cell is exactly \<open>-\<close>, except for three
  columns: \<open>status\<close> reads \<open>Sem Info\<close>, \<open>custos\<close> reads \<open>R$ 0,00\<close> and \<open>acoes\<close> is the details
  button. A column whose id the dispatch does not know renders the cell \<open><td>-</td>\<close>.
\<close>

theorem renderRow_absent_fields:
  assumes a: "optional_absent operation" and r: "operations_readable w"
  shows "\<exists>pre cells.
           map (\<lambda>column. renderCell P w pre (memoized operation) (col_id column)) visibleColumns
             = map Inr cells
         \<and> renderRow P w visibleColumns operation
             = Inr (if visibleColumns = [] then (columns_unavailable, operation)
                    else (concat cells, memoized operation))
         \<and> (\<forall>c. \<exists>cell. renderCell P w pre (memoized operation) c = Inr cell
               \<and> (c \<notin> {''acoes'', ''status'', ''custos''} \<longrightarrow> text_content False cell = ''-'')
               \<and> (c = ''status'' \<longrightarrow> text_content False cell = ''Sem Info'')
               \<and> (c = ''custos'' \<longrightarrow> text_content False cell = ''R$ 0,00'')
               \<and> (c = ''acoes'' \<longrightarrow>
                     starts_with (''<td>'' @ nl 28 @ ''<button class=\"table-action-btn\" '') cell)
               \<and> (c \<notin> set (map col_id AVAILABLE_COLUMNS) \<longrightarrow> cell = ''<td>-</td>''))
         \<and> optional_absent (memoized operation)"
proof -
  from renderRow_absent [OF a r, of P visibleColumns] obtain i where
    i: "renderRow P w visibleColumns operation =
           (if visibleColumns = [] then Inr (columns_unavailable, operation)
            else js_bind (js_map (\<lambda>column. renderCell P w (absent_prepared P i)
                                           (memoized operation) (col_id column))
                            visibleColumns)
                   (\<lambda>cells. Inr (concat cells, memoized operation)))" ..
  let ?pre = "absent_prepared P i" and ?op = "memoized operation"
  have H: "absent (js_prop ?op f)" if "f \<notin> set derived_fields" for f
    using a that by (rule memoized_absent)
  note C = memoized_container [OF a]
  have cell: "\<exists>cell. renderCell P w ?pre ?op c = Inr cell
               \<and> (c \<notin> {''acoes'', ''status'', ''custos''} \<longrightarrow> text_content False cell = ''-'')
               \<and> (c = ''status'' \<longrightarrow> text_content False cell = ''Sem Info'')
               \<and> (c = ''custos'' \<longrightarrow> text_content False cell = ''R$ 0,00'')
               \<and> (c = ''acoes'' \<longrightarrow>
                     starts_with (''<td>'' @ nl 28 @ ''<button class=\"table-action-btn\" '') cell)
               \<and> (c \<notin> set (map col_id AVAILABLE_COLUMNS) \<longrightarrow> cell = ''<td>-</td>'')" for c
    by (rule renderCell_absent) (rule H, assumption, rule C)
  have total: "\<exists>cell. renderCell P w ?pre ?op (col_id column) = Inr cell" for column
    using cell [of "col_id column"] by (elim exE conjE, intro exI)
  from js_map_total [of "\<lambda>column. renderCell P w ?pre ?op (col_id column)" visibleColumns,
      OF total]
  obtain cells where
    cells: "js_map (\<lambda>column. renderCell P w ?pre ?op (col_id column)) visibleColumns = Inr cells
      \<and> map (\<lambda>column. renderCell P w ?pre ?op (col_id column)) visibleColumns = map Inr cells" ..
  have row: "renderRow P w visibleColumns operation
             = Inr (if visibleColumns = [] then (columns_unavailable, operation)
                    else (concat cells, ?op))"
    using i cells by (simp add: js_bind_simps)
  show ?thesis
    apply (rule exI [of _ ?pre], rule exI [of _ cells], intro conjI allI)
       apply (rule cells [THEN conjunct2])
      apply (rule row)
     apply (rule cell)
    apply (rule optional_absent_memoized [OF a])
    done
qed

text \<open>
  The theorem at a record that was rendered before, with its derived fields stored on it,
  and the columns \<open>modal\<close>, \<open>status\<close> and \<open>zzz\<close>, the last one unknown to the dispatch.
\<close>

theorem renderRow_absent_fields_witness:
  "optional_absent rendered_operation \<and> operations_readable sample_window
   \<and> (\<exists>modal status unknown.
         renderRow sample_platform sample_window
            [column ''modal'', column ''status'', column ''zzz''] rendered_operation
           = Inr (modal @ status @ unknown, rendered_operation)
         \<and> text_content False modal = ''-''
         \<and> text_content False status = ''Sem Info''
         \<and> unknown = ''<td>-</td>'')"
proof -
  have a: "optional_absent rendered_operation"
    by (simp add: optional_absent_def rendered_operation_def derived_fields_def absent_def
        js_prop_def)
  have r: "operations_readable sample_window"
    by (simp add: operations_readable_def sample_window_def)
  have m: "memoized rendered_operation = rendered_operation"
    by (simp add: memoized_def rendered_operation_def js_prop_def no_produtos_def)
  let ?cols = "[column ''modal'', column ''status'', column ''zzz'']"
  let ?cell = "renderCell sample_platform sample_window"
  from renderRow_absent_fields [OF a r, of sample_platform ?cols]
  obtain pre cells where
    q: "map (\<lambda>column. ?cell pre (memoized rendered_operation) (col_id column)) ?cols
          = map Inr cells
        \<and> renderRow sample_platform sample_window ?cols rendered_operation
            = Inr (if ?cols = [] then (columns_unavailable, rendered_operation)
                   else (concat cells, memoized rendered_operation))
        \<and> (\<forall>c. \<exists>cell. ?cell pre (memoized rendered_operation) c = Inr cell
               \<and> (c \<notin> {''acoes'', ''status'', ''custos''} \<longrightarrow> text_content False cell = ''-'')
               \<and> (c = ''status'' \<longrightarrow> text_content False cell = ''Sem Info'')
               \<and> (c = ''custos'' \<longrightarrow> text_content False cell = ''R$ 0,00'')
               \<and> (c = ''acoes'' \<longrightarrow>
                     starts_with (''<td>'' @ nl 28 @ ''<button class=\"table-action-btn\" '') cell)
               \<and> (c \<notin> set (map col_id AVAILABLE_COLUMNS) \<longrightarrow> cell = ''<td>-</td>''))
        \<and> optional_absent (memoized rendered_operation)"
    by (elim exE)
  note cells = q [THEN conjunct1]
  note row = q [THEN conjunct2, THEN conjunct1]
  note each = q [THEN conjunct2, THEN conjunct2, THEN conjunct1, rule_format]
  from each [of "''modal''"] obtain modal where
    modal: "?cell pre (memoized rendered_operation) ''modal'' = Inr modal"
      "text_content False modal = ''-''"
    by (elim exE conjE) simp
  from each [of "''status''"] obtain status where
    status: "?cell pre (memoized rendered_operation) ''status'' = Inr status"
      "text_content False status = ''Sem Info''"
    by (elim exE conjE) simp
  have z: "''zzz'' \<notin> set (map col_id AVAILABLE_COLUMNS)"
    by (simp add: AVAILABLE_COLUMNS_def)
  from each [of "''zzz''"] z obtain unknown where
    unknown: "?cell pre (memoized rendered_operation) ''zzz'' = Inr unknown"
      "unknown = ''<td>-</td>''"
    by (elim exE conjE) simp
  from cells modal(1) status(1) unknown(1) have "cells = [modal, status, unknown]"
    by (cases cells) (auto simp: column_def)
  with row m have "renderRow sample_platform sample_window ?cols rendered_operation
      = Inr (modal @ status @ unknown, rendered_operation)"
    by simp
  with modal(2) status(2) unknown(2) have "\<exists>modal status unknown.
         renderRow sample_platform sample_window
            [column ''modal'', column ''status'', column ''zzz''] rendered_operation
           = Inr (modal @ status @ unknown, rendered_operation)
         \<and> text_content False modal = ''-''
         \<and> text_content False status = ''Sem Info''
         \<and> unknown = ''<td>-</td>''"
    by (intro exI conjI)
  with a r show ?thesis by (intro conjI)
qed

text \<open>
  C9 as stated, with the placeholder \<open>-\<close> in every cell, does not hold: for the record without
  any field the \<open>status\<close> cell reads \<open>Sem Info\<close>, a text without \<open>-\<close>.
\<close>

theorem status_cell_not_placeholder_counterexample:
  "renderRow sample_platform sample_window [column ''status''] (JObj [])
     = Inr (''<td><span class=\"badge badge-light-monochrome\">Sem Info</span></td>'',
            JObj [(''__produtos_summary'', JObj [(''text'', JStr ''-''), (''entries'', JArr [])]),
                  (''__produtos_entries'', JArr []), (''__produtos_tooltip'', JUndefined)])
   \<and> text_content False ''<td><span class=\"badge badge-light-monochrome\">Sem Info</span></td>''
       = ''Sem Info''
   \<and> CHR ''-'' \<notin> set ''Sem Info''"
  by code_simp

end
